theory Spec2Isabelle
  imports Main
begin

section \<open>JavaScript values used by the tracker\<close>

text \<open>
  The repository holds three scripts: \<^verbatim>\<open>src/app.js\<close> (Oasis Pharmacy Tracker v3.0),
  \<^verbatim>\<open>src/unnamed/part_002\<close> (Backwall Tracker v4.2.0, a later rewrite of the same
  functions) and \<^verbatim>\<open>src/unnamed/part_000\<close> (the class \<^verbatim>\<open>PharmacyMatcher\<close>).
  Functions that exist in both trackers carry the suffix \<open>_v3\<close> (app.js) or \<open>_v4\<close>
  (part_002).

  Strings are \<^typ>\<open>string\<close>, one \<^typ>\<open>char\<close> per UTF-16 code unit; the character classes
  below are the ASCII part of the JavaScript ones, so the model is the program on ASCII
  text. Numbers are \<^typ>\<open>int\<close>; a number that may be \<^verbatim>\<open>NaN\<close> is an \<^typ>\<open>int option\<close>
  with \<^const>\<open>None\<close> for \<^verbatim>\<open>NaN\<close>. A field that may be missing from an object is
  an option as well.
\<close>

type_synonym num = "int option"

definition isDigit :: "char \<Rightarrow> bool" where
  \<comment> \<open>the regular expression class \<^verbatim>\<open>\d\<close>\<close>
  "isDigit c = (c \<in> set ''0123456789'')"

definition isSpace :: "char \<Rightarrow> bool" where
  \<comment> \<open>\<^verbatim>\<open>\s\<close>, and what \<^verbatim>\<open>trim()\<close> removes: tab, line feed, vertical tab, form feed,
      carriage return, space\<close>
  "isSpace c = (c \<in> {CHR 0x09, CHR 0x0A, CHR 0x0B, CHR 0x0C, CHR 0x0D, CHR 0x20})"

definition trim :: "string \<Rightarrow> string" where
  "trim s = rev (dropWhile isSpace (rev (dropWhile isSpace s)))"

definition padStart :: "nat \<Rightarrow> char \<Rightarrow> string \<Rightarrow> string" where
  \<comment> \<open>\<^verbatim>\<open>s.padStart(n, c)\<close>: a string of \<open>n\<close> or more characters is returned as it is\<close>
  "padStart n c s = replicate (n - length s) c @ s"

definition startsWith :: "string \<Rightarrow> string \<Rightarrow> bool" where
  \<comment> \<open>\<^verbatim>\<open>s.startsWith(p)\<close>\<close>
  "startsWith s p = (take (length p) s = p)"

fun str_includes :: "string \<Rightarrow> string \<Rightarrow> bool" where
  \<comment> \<open>\<^verbatim>\<open>s.includes(p)\<close>: \<open>p\<close> starts at some position of \<open>s\<close>\<close>
  "str_includes [] p = (p = [])"
| "str_includes (c # cs) p = (startsWith (c # cs) p \<or> str_includes cs p)"

definition substring :: "string \<Rightarrow> nat \<Rightarrow> nat \<Rightarrow> string" where
  \<comment> \<open>\<^verbatim>\<open>s.substring(a, b)\<close>: both ends are clamped to the length, and swapped when
      \<open>a > b\<close>\<close>
  "substring s a b = take (max a b - min a b) (drop (min a b) s)"

definition slice_last :: "nat \<Rightarrow> string \<Rightarrow> string" where
  \<comment> \<open>\<^verbatim>\<open>s.slice(-n)\<close>: the last \<open>n\<close> characters, the whole string when it is shorter\<close>
  "slice_last n s = drop (length s - n) s"

definition strip_zeros :: "string \<Rightarrow> string" where
  \<comment> \<open>\<^verbatim>\<open>s.replace(/^0+/, '')\<close>\<close>
  "strip_zeros s = dropWhile (\<lambda>c. c = CHR ''0'') s"

definition digits_only :: "string \<Rightarrow> string" where
  \<comment> \<open>\<^verbatim>\<open>s.replace(/\D/g, '')\<close>\<close>
  "digits_only s = filter isDigit s"

fun indexOf_at :: "string \<Rightarrow> string \<Rightarrow> nat \<Rightarrow> int" where
  \<comment> \<open>the first position, counted from \<open>i\<close>, at which \<open>p\<close> starts in the rest \<open>s\<close>; -1 when
      there is none\<close>
  "indexOf_at [] p i = (if p = [] then int i else -1)"
| "indexOf_at (c # cs) p i = (if startsWith (c # cs) p then int i else indexOf_at cs p (Suc i))"

definition indexOf :: "string \<Rightarrow> string \<Rightarrow> nat \<Rightarrow> int" where
  \<comment> \<open>\<^verbatim>\<open>s.indexOf(p, from)\<close>\<close>
  "indexOf s p from = indexOf_at (drop from s) p (min from (length s))"

subsection \<open>Numbers and their text\<close>

definition digit_val :: "char \<Rightarrow> nat" where
  "digit_val c = (case map_of (zip ''0123456789abcdefABCDEF''
       [0, 1, 2, 3, 4, 5, 6, 7, 8, 9, 10, 11, 12, 13, 14, 15, 10, 11, 12, 13, 14, 15]) c of
     Some v \<Rightarrow> v | None \<Rightarrow> 0)"

definition isHexDigit :: "char \<Rightarrow> bool" where
  "isHexDigit c = (c \<in> set ''0123456789abcdefABCDEF'')"

definition digits_val :: "nat \<Rightarrow> string \<Rightarrow> nat" where
  \<comment> \<open>the value of a string of digits in the given radix\<close>
  "digits_val radix ds = fold (\<lambda>c acc. acc * radix + digit_val c) ds 0"

definition parse_signed :: "(string \<Rightarrow> num) \<Rightarrow> string \<Rightarrow> num" where
  \<comment> \<open>the common start of \<^verbatim>\<open>parseInt\<close>: leading white space is skipped and one sign is
      read\<close>
  "parse_signed body s =
     (case dropWhile isSpace s of
        c # r \<Rightarrow>
          if c = CHR ''-'' then map_option uminus (body r)
          else if c = CHR ''+'' then body r
          else body (c # r)
      | [] \<Rightarrow> body [])"

definition parse_digits :: "nat \<Rightarrow> (char \<Rightarrow> bool) \<Rightarrow> string \<Rightarrow> num" where
  \<comment> \<open>the longest run of digits of the radix; none at all is \<^verbatim>\<open>NaN\<close>\<close>
  "parse_digits radix ok s =
     (let ds = takeWhile ok s in if ds = [] then None else Some (int (digits_val radix ds)))"

definition parseInt10 :: "string \<Rightarrow> num" where
  \<comment> \<open>\<^verbatim>\<open>parseInt(s, 10)\<close>\<close>
  "parseInt10 s = parse_signed (parse_digits 10 isDigit) s"

definition parseInt :: "string \<Rightarrow> num" where
  \<comment> \<open>\<^verbatim>\<open>parseInt(s)\<close>: no radix given, so a \<^verbatim>\<open>0x\<close> or \<^verbatim>\<open>0X\<close> prefix selects radix 16\<close>
  "parseInt s = parse_signed (\<lambda>r.
       if startsWith r ''0x'' \<or> startsWith r ''0X'' then parse_digits 16 isHexDigit (drop 2 r)
       else parse_digits 10 isDigit r) s"

fun string_of_nat :: "nat \<Rightarrow> string" where
  "string_of_nat n =
     (if n < 10 then [''0123456789'' ! n]
      else string_of_nat (n div 10) @ [''0123456789'' ! (n mod 10)])"

declare string_of_nat.simps [simp del]

definition String_int :: "int \<Rightarrow> string" where
  "String_int i = (if i < 0 then CHR ''-'' # string_of_nat (nat (- i)) else string_of_nat (nat i))"

definition String :: "num \<Rightarrow> string" where
  \<comment> \<open>\<^verbatim>\<open>String(n)\<close>, also the text a template literal inserts for a number\<close>
  "String n = (case n of None \<Rightarrow> ''NaN'' | Some i \<Rightarrow> String_int i)"

definition two_digits :: "nat \<Rightarrow> string" where
  \<comment> \<open>\<^verbatim>\<open>String(n).padStart(2, '0')\<close> for a number that is not negative\<close>
  "two_digits n = padStart 2 (CHR ''0'') (string_of_nat n)"

subsection \<open>Dates\<close>

text \<open>
  A \<^verbatim>\<open>Date\<close> built by \<^verbatim>\<open>new Date(year, monthIndex, day)\<close> is local midnight of a
  calendar day. The model keeps that day as (year, month index 0..11, day of month), in
  the proleptic Gregorian calendar. A day number outside the month carries over into the
  neighbouring months, as \<^verbatim>\<open>MakeDay\<close> of ECMAScript does: day 0 is the last day of the
  month before.
\<close>

type_synonym jsdate = "int \<times> int \<times> int"

definition isLeapYear :: "int \<Rightarrow> bool" where
  "isLeapYear y = (y mod 4 = 0 \<and> (y mod 100 \<noteq> 0 \<or> y mod 400 = 0))"

definition daysInMonth :: "int \<Rightarrow> int \<Rightarrow> int" where
  \<comment> \<open>the month is an index: 0 is January, 1 is February\<close>
  "daysInMonth y m =
     (if m = 1 then (if isLeapYear y then 29 else 28)
      else if m = 3 \<or> m = 5 \<or> m = 8 \<or> m = 10 then 30
      else 31)"

definition prev_month :: "int \<Rightarrow> int \<Rightarrow> int \<times> int" where
  "prev_month y m = (if m \<le> 0 then (y - 1, 11) else (y, m - 1))"

definition next_month :: "int \<Rightarrow> int \<Rightarrow> int \<times> int" where
  "next_month y m = (if m \<ge> 11 then (y + 1, 0) else (y, m + 1))"

function norm_day :: "int \<Rightarrow> int \<Rightarrow> int \<Rightarrow> jsdate" where
  "norm_day y m d =
     (if d < 1 then
        (case prev_month y m of (y', m') \<Rightarrow> norm_day y' m' (d + daysInMonth y' m'))
      else if d > daysInMonth y m then
        (case next_month y m of (y', m') \<Rightarrow> norm_day y' m' (d - daysInMonth y m))
      else (y, m, d))"
  by pat_completeness auto
termination
  by (relation "measure (\<lambda>(y, m, d). if d < 1 then 32 + nat (1 - d) else nat d)")
     (auto simp: daysInMonth_def prev_month_def next_month_def split: if_splits)

declare norm_day.simps [simp del]

definition MakeDay :: "int \<Rightarrow> int \<Rightarrow> int \<Rightarrow> jsdate" where
  \<comment> \<open>the calendar day of (year, month index, day), each of them any integer\<close>
  "MakeDay y m d = norm_day (y + m div 12) (m mod 12) d"

definition Date_new :: "num \<Rightarrow> num \<Rightarrow> num \<Rightarrow> jsdate option" where
  \<comment> \<open>\<^verbatim>\<open>new Date(year, monthIndex, day)\<close>: \<^const>\<open>None\<close> is the invalid date that a
      \<^verbatim>\<open>NaN\<close> argument gives; a year from 0 to 99 means 1900 + year\<close>
  "Date_new year month day =
     (case (year, month, day) of
        (Some y, Some m, Some d) \<Rightarrow>
          Some (MakeDay (if 0 \<le> y \<and> y \<le> 99 then 1900 + y else y) m d)
      | _ \<Rightarrow> None)"

definition getDate :: "jsdate option \<Rightarrow> num" where
  \<comment> \<open>\<^verbatim>\<open>date.getDate()\<close>: the day of the month in local time, \<^verbatim>\<open>NaN\<close> for the invalid
      date\<close>
  "getDate dt = map_option (\<lambda>(y, m, d). d) dt"

definition utc_day :: "int \<Rightarrow> jsdate \<Rightarrow> jsdate" where
  \<comment> \<open>the UTC calendar day at local midnight of the given day; \<open>tz\<close> is the offset of local
      time from UTC in minutes, positive east of Greenwich (the negation of
      \<^verbatim>\<open>getTimezoneOffset()\<close>): local midnight is \<open>tz\<close> minutes before or after UTC midnight\<close>
  "utc_day tz dt = (case dt of (y, m, d) \<Rightarrow> norm_day y m (d + (- tz) div 1440))"

definition iso_year :: "int \<Rightarrow> string" where
  \<comment> \<open>four digits from year 0 to 9999, a sign and six digits otherwise\<close>
  "iso_year y =
     (if 0 \<le> y \<and> y \<le> 9999 then padStart 4 (CHR ''0'') (string_of_nat (nat y))
      else (if y < 0 then CHR ''-'' else CHR ''+'') # padStart 6 (CHR ''0'') (string_of_nat (nat \<bar>y\<bar>)))"

definition iso_date :: "jsdate \<Rightarrow> string" where
  "iso_date dt = (case dt of (y, m, d) \<Rightarrow>
     iso_year y @ ''-'' @ padStart 2 (CHR ''0'') (string_of_nat (nat (m + 1)))
       @ ''-'' @ padStart 2 (CHR ''0'') (string_of_nat (nat d)))"

datatype js_error =
    RangeError    \<comment> \<open>\<^verbatim>\<open>toISOString()\<close> of an invalid date\<close>
  | NotInitialised    \<comment> \<open>the \<^verbatim>\<open>Error\<close> that \<^verbatim>\<open>_checkReady\<close> throws\<close>
  | DBError    \<comment> \<open>a rejected read of the IndexedDB store\<close>
  | TypeError    \<comment> \<open>a method call on a value that has no such method\<close>

definition toISOString_date :: "int \<Rightarrow> jsdate option \<Rightarrow> js_error + string" where
  \<comment> \<open>\<^verbatim>\<open>date.toISOString().split('T')[0]\<close>: the date part of the UTC time\<close>
  "toISOString_date tz dt =
     (case dt of None \<Rightarrow> Inl RangeError | Some d \<Rightarrow> Inr (iso_date (utc_day tz d)))"

section \<open>Expiry dates\<close>

subsection \<open>\<^verbatim>\<open>parseExpiryDate\<close> of app.js\<close>

record expiry_v3 =
  date :: "jsdate option"
  iso :: string
  formatted :: string

definition pivot_year :: "num \<Rightarrow> num" where
  \<comment> \<open>\<^verbatim>\<open>yy >= 50 ? 1900 + yy : 2000 + yy\<close>; a comparison with \<^verbatim>\<open>NaN\<close> is false and the sum
      is \<^verbatim>\<open>NaN\<close>\<close>
  "pivot_year yy = map_option (\<lambda>y. if y \<ge> 50 then 1900 + y else 2000 + y) yy"

definition last_day_if_zero :: "num \<Rightarrow> num \<Rightarrow> num \<Rightarrow> num" where
  \<comment> \<open>\<^verbatim>\<open>if (dd === 0) dd = new Date(year, mm, 0).getDate();\<close>\<close>
  "last_day_if_zero year mm dd =
     (if dd = Some 0 then getDate (Date_new year mm (Some 0)) else dd)"

definition parseExpiryDate_v3 :: "int \<Rightarrow> string \<Rightarrow> js_error + expiry_v3" where
  "parseExpiryDate_v3 tz yymmdd =
     (let yy = parseInt10 (substring yymmdd 0 2);
          mm = parseInt10 (substring yymmdd 2 4);
          dd0 = parseInt10 (substring yymmdd 4 6);
          year = pivot_year yy;
          dd = last_day_if_zero year mm dd0;
          dt = Date_new year (map_option (\<lambda>m. m - 1) mm) dd
      in case toISOString_date tz dt of
           Inl e \<Rightarrow> Inl e
         | Inr i \<Rightarrow> Inr \<lparr>date = dt, iso = i,
             formatted = padStart 2 (CHR ''0'') (String dd) @ ''/''
               @ padStart 2 (CHR ''0'') (String mm) @ ''/'' @ String year\<rparr>)"

subsection \<open>\<^verbatim>\<open>parseExpiryDate\<close> of part_002\<close>

record expiry_v4 =
  iso :: string
  ddmmyy :: string
  display :: string

definition parseExpiryDate_v4 :: "string \<Rightarrow> expiry_v4" where
  "parseExpiryDate_v4 yymmdd =
     (let yy = parseInt (substring yymmdd 0 2);
          mm = parseInt (substring yymmdd 2 4);
          dd0 = parseInt (substring yymmdd 4 6);
          year = map_option (\<lambda>y. 2000 + y) yy;
          dd = last_day_if_zero year mm dd0
      in \<lparr>iso = String year @ ''-'' @ padStart 2 (CHR ''0'') (String mm) @ ''-''
              @ padStart 2 (CHR ''0'') (String dd),
          ddmmyy = padStart 2 (CHR ''0'') (String dd) @ padStart 2 (CHR ''0'') (String mm)
              @ padStart 2 (CHR ''0'') (String yy),
          display = padStart 2 (CHR ''0'') (String dd) @ ''/''
              @ padStart 2 (CHR ''0'') (String mm) @ ''/'' @ String year\<rparr>)"

section \<open>Decoding a scanned code\<close>

subsection \<open>Regular expression searches\<close>

fun find_first :: "(string \<Rightarrow> 'a option) \<Rightarrow> string \<Rightarrow> 'a option" where
  \<comment> \<open>\<^verbatim>\<open>s.match(re)\<close> without the \<^verbatim>\<open>g\<close> flag: the match at the leftmost position that
      has one\<close>
  "find_first f [] = f []"
| "find_first f (c # cs) = (case f (c # cs) of Some r \<Rightarrow> Some r | None \<Rightarrow> find_first f cs)"

definition after_tag :: "string \<Rightarrow> (string \<Rightarrow> 'a option) \<Rightarrow> string \<Rightarrow> 'a option" where
  \<comment> \<open>a literal tag, then a group\<close>
  "after_tag tag grp s = (if startsWith s tag then grp (drop (length tag) s) else None)"

definition grp_digits :: "nat \<Rightarrow> nat option \<Rightarrow> string \<Rightarrow> string option" where
  \<comment> \<open>\<^verbatim>\<open>(\d{lo,hi})\<close>, greedy; no upper bound is \<^verbatim>\<open>(\d+)\<close> with \<open>lo = 1\<close>\<close>
  "grp_digits lo hi s =
     (let ds = takeWhile isDigit s
      in if length ds < lo then None
         else Some (case hi of None \<Rightarrow> ds | Some h \<Rightarrow> take h ds))"

definition grp_none_of :: "char list \<Rightarrow> string \<Rightarrow> string option" where
  \<comment> \<open>\<^verbatim>\<open>([^...]+)\<close>: one or more characters outside the listed ones, greedy\<close>
  "grp_none_of excluded s =
     (let v = takeWhile (\<lambda>c. c \<notin> set excluded) s in if v = [] then None else Some v)"

definition match_ai_digits :: "string \<Rightarrow> nat \<Rightarrow> nat option \<Rightarrow> string \<Rightarrow> string option" where
  "match_ai_digits tag lo hi code = find_first (after_tag tag (grp_digits lo hi)) code"

definition match_ai_text :: "string \<Rightarrow> char list \<Rightarrow> string \<Rightarrow> string option" where
  "match_ai_text tag excluded code = find_first (after_tag tag (grp_none_of excluded)) code"

definition parseInt_or_1 :: "num \<Rightarrow> int" where
  \<comment> \<open>\<^verbatim>\<open>parseInt(...) || 1\<close>: 0 and \<^verbatim>\<open>NaN\<close> are falsy\<close>
  "parseInt_or_1 n = (case n of None \<Rightarrow> 1 | Some i \<Rightarrow> if i = 0 then 1 else i)"

definition gtin13_of :: "string \<Rightarrow> string" where
  \<comment> \<open>\<^verbatim>\<open>gtin14.startsWith('0') ? gtin14.substring(1) : gtin14\<close> (\<^verbatim>\<open>slice(1)\<close> in part_002)\<close>
  "gtin13_of g = (if startsWith g ''0'' then drop 1 g else g)"

subsection \<open>\<^verbatim>\<open>parseGS1\<close> of app.js\<close>

record gs1_v3 =
  valid :: bool
  raw :: string
  gtin14 :: string
  gtin13 :: string
  expiry :: "string option"
  expiryFormatted :: string
  expiryStatus :: string
  batch :: string
  serial :: string
  qty :: int

datatype ai_len = Fixed nat | Variable

definition aiLengths :: "(string \<times> ai_len) list" where
  \<comment> \<open>in the order \<^verbatim>\<open>Object.entries\<close> lists the literal: the keys that are array indices
      (10 to 37) in ascending order, then \<^verbatim>\<open>'01'\<close> and \<^verbatim>\<open>'02'\<close> as written\<close>
  "aiLengths =
     [(''10'', Variable), (''11'', Fixed 6), (''13'', Fixed 6), (''15'', Fixed 6),
      (''17'', Fixed 6), (''20'', Fixed 2), (''21'', Variable), (''30'', Variable),
      (''37'', Variable), (''01'', Fixed 14), (''02'', Fixed 14)]"

definition ai_at :: "string \<Rightarrow> (string \<times> ai_len) option" where
  \<comment> \<open>the first entry whose key starts the rest of the code\<close>
  "ai_at rest = find (\<lambda>(ai, len). startsWith rest ai) aiLengths"

lemma ai_at_length:
  assumes "ai_at rest = Some (ai, len)"
  shows "length ai = 2 \<and> rest \<noteq> []"
proof -
  from assms have "(ai, len) \<in> set aiLengths" and s: "startsWith rest ai"
    unfolding ai_at_def by (auto simp: find_Some_iff in_set_conv_nth)
  then have l: "length ai = 2"
    by (auto simp: aiLengths_def)
  with s have "rest \<noteq> []"
    by (auto simp: startsWith_def)
  with l show ?thesis by simp
qed

function convert_from :: "string \<Rightarrow> string" where
  \<comment> \<open>the \<^verbatim>\<open>while (pos < code.length)\<close> loop; the argument is \<^verbatim>\<open>code.substring(pos)\<close>\<close>
  "convert_from rest =
     (if rest = [] then []
      else case ai_at rest of
        None \<Rightarrow> convert_from (drop 1 rest)
      | Some (ai, Fixed n) \<Rightarrow>
          ''('' @ ai @ '')'' @ take n (drop (length ai) rest)
            @ convert_from (drop (length ai + n) rest)
      | Some (ai, Variable) \<Rightarrow>
          (let r = drop (length ai) rest; sep = indexOf r ''|'' 0
           in if sep \<noteq> -1
              then ''('' @ ai @ '')'' @ take (nat sep) r @ convert_from (drop (nat sep + 1) r)
              else ''('' @ ai @ '')'' @ r))"
  by pat_completeness auto
termination
  by (relation "measure length") (auto dest: ai_at_length)

declare convert_from.simps [simp del]

definition convertToParenthesized :: "string \<Rightarrow> string" where
  \<comment> \<open>\<^verbatim>\<open>return result || code\<close>\<close>
  "convertToParenthesized code = (let result = convert_from code in if result = [] then code else result)"

definition getExpiryStatus_v3 :: "(jsdate \<Rightarrow> int) \<Rightarrow> jsdate option \<Rightarrow> string" where
  \<comment> \<open>\<open>diff\<close> is \<^verbatim>\<open>Math.ceil((exp - now) / 86400000)\<close>, read off the clock; a \<^verbatim>\<open>Date\<close>
      object is never falsy, so the first line of the function does not apply to one\<close>
  "getExpiryStatus_v3 diff dt =
     (case dt of
        None \<Rightarrow> ''ok''
      | Some d \<Rightarrow>
          if diff d < 0 then ''expired''
          else if diff d \<le> 90 then ''expiring''
          else ''ok'')"

definition parseGS1_v3 :: "int \<Rightarrow> (jsdate \<Rightarrow> int) \<Rightarrow> string \<Rightarrow> js_error + gs1_v3" where
  "parseGS1_v3 tz diff raw0 =
     (let result = \<lparr>valid = False, raw = raw0, gtin14 = [], gtin13 = [], expiry = None,
            expiryFormatted = [], expiryStatus = ''missing'', batch = [], serial = [],
            qty = 1\<rparr>
      in if raw0 = [] then Inr result
      else
        let code = map (\<lambda>c. if c = CHR 0x1D then CHR ''|'' else c) (trim raw0)
        in if (8 \<le> length code \<and> length code \<le> 14 \<and> list_all isDigit code)
              \<and> \<not> str_includes code ''(''
           then
             (let g = padStart 14 (CHR ''0'') code
              in Inr (result\<lparr>gtin14 := g, gtin13 := gtin13_of g, valid := True\<rparr>))
           else
             let code = (if \<not> str_includes code ''('' \<and> list_all isDigit (take 2 code)
                              \<and> 2 \<le> length code
                         then convertToParenthesized code else code);
                 result = (case match_ai_digits ''(01)'' 12 (Some 14) code of
                     None \<Rightarrow> result
                   | Some m \<Rightarrow>
                       (let g = padStart 14 (CHR ''0'') m
                        in result\<lparr>gtin14 := g, gtin13 := gtin13_of g, valid := True\<rparr>))
             in case (case match_ai_digits ''(17)'' 6 (Some 6) code of
                        None \<Rightarrow> Inr result
                      | Some m \<Rightarrow>
                          (case parseExpiryDate_v3 tz m of
                             Inl e \<Rightarrow> Inl e
                           | Inr p \<Rightarrow> Inr (result\<lparr>expiry := Some (expiry_v3.iso p),
                               expiryFormatted := formatted p,
                               expiryStatus := getExpiryStatus_v3 diff (date p)\<rparr>)))
                of Inl e \<Rightarrow> Inl e
                 | Inr result \<Rightarrow>
                     let result = (case match_ai_text ''(10)'' [CHR ''('', CHR ''|'', CHR 0x1D] code of
                             None \<Rightarrow> result
                           | Some m \<Rightarrow> result\<lparr>batch := trim (filter (\<lambda>c. c \<noteq> CHR ''|'') m)\<rparr>);
                         result = (case match_ai_text ''(21)'' [CHR ''('', CHR ''|'', CHR 0x1D] code of
                             None \<Rightarrow> result
                           | Some m \<Rightarrow> result\<lparr>serial := trim (filter (\<lambda>c. c \<noteq> CHR ''|'') m)\<rparr>);
                         result = (case match_ai_digits ''(30)'' 1 None code of
                             None \<Rightarrow> result
                           | Some m \<Rightarrow> result\<lparr>qty := parseInt_or_1 (parseInt10 m)\<rparr>)
                     in Inr result)"

subsection \<open>\<^verbatim>\<open>parseGS1\<close> of part_002\<close>

record gs1_v4 =
  raw :: string
  gtin14 :: string
  gtin13 :: string
  expiryISO :: string
  expiryDDMMYY :: string
  expiryDisplay :: string
  batch :: string
  serial :: string
  qty :: int
  isGS1 :: bool

definition set_expiry_v4 :: "string \<Rightarrow> gs1_v4 \<Rightarrow> gs1_v4" where
  \<comment> \<open>the three assignments from \<^verbatim>\<open>parseExpiryDate(...)\<close>, the same in both branches\<close>
  "set_expiry_v4 yymmdd result =
     (let parsed = parseExpiryDate_v4 yymmdd
      in result\<lparr>expiryISO := expiry_v4.iso parsed, expiryDDMMYY := ddmmyy parsed,
           expiryDisplay := display parsed\<rparr>)"

definition batch_end :: "string \<Rightarrow> nat \<Rightarrow> nat" where
  \<comment> \<open>the \<^verbatim>\<open>forEach\<close> over \<^verbatim>\<open>['21', '30', '37']\<close> that moves \<^verbatim>\<open>batchEnd\<close> left\<close>
  "batch_end remaining batchStart =
     fold (\<lambda>ai batchEnd.
             let idx = indexOf remaining ai batchStart
             in if idx \<noteq> -1 \<and> idx < int batchEnd then nat idx else batchEnd)
       [''21'', ''30'', ''37''] (length remaining)"

text \<open>
  The three branches are, in the order of the source: the parentheses format, the raw GS1
  format (the code matches \<^verbatim>\<open>/^01\d{14}/\<close>) and the plain barcode.
\<close>

definition parseGS1_v4 :: "string \<Rightarrow> gs1_v4" where
  "parseGS1_v4 code0 =
     (let result = \<lparr>raw = code0, gtin14 = [], gtin13 = [], expiryISO = [], expiryDDMMYY = [],
            expiryDisplay = [], batch = [], serial = [], qty = 1, isGS1 = False\<rparr>
      in if code0 = [] then result
      else
        let code = filter (\<lambda>c. c \<noteq> CHR 0x0D \<and> c \<noteq> CHR 0x0A) (trim code0)
        in if str_includes code ''('' then
             (let result = result\<lparr>isGS1 := True\<rparr>;
                  result = (case match_ai_digits ''(01)'' 14 (Some 14) code of
                      None \<Rightarrow> result
                    | Some m \<Rightarrow> result\<lparr>gtin14 := m, gtin13 := gtin13_of m\<rparr>);
                  result = (case match_ai_digits ''(17)'' 6 (Some 6) code of
                      None \<Rightarrow> result
                    | Some m \<Rightarrow> set_expiry_v4 m result);
                  result = (case match_ai_text ''(10)'' [CHR ''(''] code of
                      None \<Rightarrow> result
                    | Some m \<Rightarrow> result\<lparr>batch := trim m\<rparr>);
                  result = (case match_ai_text ''(21)'' [CHR ''(''] code of
                      None \<Rightarrow> result
                    | Some m \<Rightarrow> result\<lparr>serial := trim m\<rparr>);
                  result = (case match_ai_digits ''(30)'' 1 None code of
                      None \<Rightarrow> result
                    | Some m \<Rightarrow> result\<lparr>qty := parseInt_or_1 (parseInt m)\<rparr>)
              in result)
           else if startsWith code ''01'' \<and> 16 \<le> length code
                   \<and> list_all isDigit (take 14 (drop 2 code)) then
             (let g = substring code 2 16;
                  result = result\<lparr>isGS1 := True, gtin14 := g, gtin13 := gtin13_of g\<rparr>;
                  remaining = drop 16 code;
                  exp17Idx = indexOf remaining ''17'' 0;
                  yymmdd = substring remaining (nat (exp17Idx + 2)) (nat (exp17Idx + 8));
                  found = (exp17Idx \<noteq> -1 \<and> int (length remaining) \<ge> exp17Idx + 8
                           \<and> length yymmdd = 6 \<and> list_all isDigit yymmdd);
                  result = (if found then set_expiry_v4 yymmdd result else result);
                  remaining = (if found
                     then substring remaining 0 (nat exp17Idx) @ drop (nat (exp17Idx + 8)) remaining
                     else remaining);
                  batch10Idx = indexOf remaining ''10'' 0
              in if batch10Idx \<noteq> -1 then
                   (let batchStart = nat (batch10Idx + 2);
                        batchEnd = batch_end remaining batchStart
                    in result\<lparr>batch := trim (substring remaining batchStart batchEnd)\<rparr>)
                 else result)
           else
             (let digits = digits_only code
              in if 8 \<le> length digits \<and> length digits \<le> 14 then
                   (let g = padStart 14 (CHR ''0'') digits
                    in result\<lparr>gtin14 := g, gtin13 := gtin13_of g\<rparr>)
                 else if 5 \<le> length digits then
                   result\<lparr>gtin14 := padStart 14 (CHR ''0'') digits, gtin13 := digits\<rparr>
                 else result))"

section \<open>The master index\<close>

subsection \<open>\<^verbatim>\<open>loadMasterData\<close> and \<^verbatim>\<open>matchProduct\<close> of app.js\<close>

text \<open>
  The store \<^verbatim>\<open>master\<close> has the key path \<^verbatim>\<open>gtin\<close>, so every item has that field. Of
  \<^verbatim>\<open>State\<close> the model keeps the three maps that \<^verbatim>\<open>loadMasterData\<close> writes. The maps
  are cleared and filled in place. The argument \<open>db\<close> is what \<^verbatim>\<open>DB.getAll('master')\<close>
  resolves to; when the read is rejected the \<^verbatim>\<open>catch\<close> logs the error and the state
  stays as it was.
\<close>

record item_v3 =
  gtin :: string
  name :: string

record state_v3 =
  masterData :: "string \<rightharpoonup> item_v3"
  exact :: "string \<rightharpoonup> item_v3"
  last8 :: "string \<rightharpoonup> item_v3 list"

definition load_item_v3 :: "item_v3 \<Rightarrow> state_v3 \<Rightarrow> state_v3" where
  \<comment> \<open>the body of \<^verbatim>\<open>data.forEach\<close>\<close>
  "load_item_v3 item st =
     (let st = st\<lparr>masterData := (masterData st)(gtin item \<mapsto> item)\<rparr>;
          g14 = padStart 14 (CHR ''0'') (gtin item);
          st = st\<lparr>exact := (exact st)(g14 \<mapsto> item)\<rparr>;
          l8 = slice_last 8 g14;
          st = (if last8 st l8 = None then st\<lparr>last8 := (last8 st)(l8 \<mapsto> [])\<rparr> else st)
      in st\<lparr>last8 := (last8 st)(l8 \<mapsto> the (last8 st l8) @ [item])\<rparr>)"

definition loadMasterData :: "js_error + item_v3 list \<Rightarrow> state_v3 \<Rightarrow> state_v3" where
  "loadMasterData db st =
     (case db of
        Inl e \<Rightarrow> st
      | Inr data \<Rightarrow>
          fold load_item_v3 data
            (st\<lparr>masterData := Map.empty, exact := Map.empty, last8 := Map.empty\<rparr>))"

record match_v3 =
  product :: "item_v3 option"
  matchType :: string

definition matchProduct_v3 :: "state_v3 \<Rightarrow> string \<Rightarrow> match_v3" where
  \<comment> \<open>\<open>g14\<close> is the parameter \<^verbatim>\<open>gtin14\<close>\<close>
  "matchProduct_v3 st g14 =
     (case exact st g14 of
        Some item \<Rightarrow> \<lparr>product = Some item, matchType = ''exact''\<rparr>
      | None \<Rightarrow>
          (let l8 = slice_last 8 g14
           in case last8 st l8 of
                Some [m0] \<Rightarrow> \<lparr>product = Some m0, matchType = ''last8''\<rparr>
              | _ \<Rightarrow> \<lparr>product = None, matchType = ''none''\<rparr>))"

subsection \<open>\<^verbatim>\<open>buildMasterIndex\<close> and \<^verbatim>\<open>matchProduct\<close> of part_002\<close>

text \<open>
  A product of the store \<^verbatim>\<open>master\<close> is an object with the fields \<^verbatim>\<open>barcode\<close>,
  \<^verbatim>\<open>name\<close> and \<^verbatim>\<open>rms\<close>; a field that is missing is \<^const>\<open>None\<close>. The source reads
  each of them as \<^verbatim>\<open>item.field || ''\<close>, which is \<^verbatim>\<open>or_empty\<close>. An entry of a \<^verbatim>\<open>last8\<close>
  bucket is the pair \<^verbatim>\<open>{barcode, name}\<close>, an entry of \<^verbatim>\<open>all\<close> the triple
  \<^verbatim>\<open>{barcode, name, rms}\<close>.
\<close>

record master_item =
  barcode :: "string option"
  name :: "string option"
  rms :: "string option"

definition or_empty :: "string option \<Rightarrow> string" where
  "or_empty f = (case f of None \<Rightarrow> [] | Some v \<Rightarrow> v)"

record master_index =
  exact :: "string \<rightharpoonup> string"
  last8 :: "string \<rightharpoonup> (string \<times> string) list"
  rms :: "string \<rightharpoonup> string"
  all :: "(string \<times> string \<times> string) list"

definition index_barcode :: "string \<Rightarrow> string \<Rightarrow> master_index \<Rightarrow> master_index" where
  \<comment> \<open>the block \<^verbatim>\<open>if (barcode) { ... }\<close>\<close>
  "index_barcode bc nm idx =
     (let idx = idx\<lparr>exact := (master_index.exact idx)(bc \<mapsto> nm)\<rparr>;
          gtin14 = padStart 14 (CHR ''0'') bc;
          idx = idx\<lparr>exact := (master_index.exact idx)(gtin14 \<mapsto> nm)\<rparr>;
          idx = (if startsWith gtin14 ''0''
                 then idx\<lparr>exact := (master_index.exact idx)(drop 1 gtin14 \<mapsto> nm)\<rparr> else idx);
          noZeros = strip_zeros bc;
          idx = (if 5 \<le> length noZeros
                 then idx\<lparr>exact := (master_index.exact idx)(noZeros \<mapsto> nm)\<rparr> else idx)
      in if 8 \<le> length bc then
           (let l8 = slice_last 8 bc;
                idx = (if master_index.last8 idx l8 = None
                       then idx\<lparr>last8 := (master_index.last8 idx)(l8 \<mapsto> [])\<rparr> else idx)
            in idx\<lparr>last8 := (master_index.last8 idx)(l8 \<mapsto> the (master_index.last8 idx l8) @ [(bc, nm)])\<rparr>)
         else idx)"

definition index_item :: "master_item \<Rightarrow> master_index \<Rightarrow> master_index" where
  \<comment> \<open>the body of the \<^verbatim>\<open>for\<close> loop; the two \<^verbatim>\<open>continue\<close> leave the index as it is\<close>
  "index_item item idx =
     (let bc = trim (digits_only (or_empty (barcode item)));
          nm = or_empty (master_item.name item);
          r = trim (or_empty (master_item.rms item))
      in if bc = [] \<and> r = [] then idx
         else if nm = [] then idx
         else
           (let idx = (if bc \<noteq> [] then index_barcode bc nm idx else idx);
                idx = (if r \<noteq> []
                       then idx\<lparr>rms := (master_index.rms idx)(r \<mapsto> nm),
                                exact := (master_index.exact idx)(r \<mapsto> nm)\<rparr>
                       else idx)
            in idx\<lparr>all := all idx @ [(bc, nm, r)]\<rparr>))"

definition buildMasterIndex :: "master_item list \<Rightarrow> master_index" where
  "buildMasterIndex masterData0 =
     fold index_item masterData0 \<lparr>exact = Map.empty, last8 = Map.empty, rms = Map.empty, all = []\<rparr>"

record state_v4 =
  masterIndex :: master_index
  currentFilter :: string
  searchQuery :: string

definition refreshMasterStats :: "master_item list \<Rightarrow> state_v4 \<Rightarrow> state_v4" where
  \<comment> \<open>\<^verbatim>\<open>State.masterIndex = buildMasterIndex(master)\<close>, \<open>master\<close> being what
      \<^verbatim>\<open>DB.getAllMaster()\<close> resolved to\<close>
  "refreshMasterStats master st = st\<lparr>masterIndex := buildMasterIndex master\<rparr>"

record match_v4 =
  name :: string
  type :: string

fun try_exact :: "(string \<rightharpoonup> string) \<Rightarrow> string list \<Rightarrow> string option" where
  \<comment> \<open>the loop \<^verbatim>\<open>for (const code of tryExact)\<close>: the name of the first hit\<close>
  "try_exact ex [] = None"
| "try_exact ex (code # rest) =
     (case ex code of
        Some n \<Rightarrow> Some n
      | None \<Rightarrow>
          (let noZeros = strip_zeros code
           in case (if 5 \<le> length noZeros then ex noZeros else None) of
                Some n \<Rightarrow> Some n
              | None \<Rightarrow> try_exact ex rest))"

definition tryExact :: "string \<Rightarrow> string \<Rightarrow> string option \<Rightarrow> string list" where
  \<comment> \<open>\<^verbatim>\<open>[gtin14, gtin13, rawCode, rawCode?.replace(/\D/g, '')].filter(Boolean)\<close>\<close>
  "tryExact g14 g13 rawCode =
     filter (\<lambda>c. c \<noteq> [])
       ([g14, g13] @ (case rawCode of None \<Rightarrow> [] | Some r \<Rightarrow> [r, digits_only r]))"

definition matchProduct_v4 :: "state_v4 \<Rightarrow> string \<Rightarrow> string \<Rightarrow> string option \<Rightarrow> match_v4" where
  \<comment> \<open>\<open>g14\<close> and \<open>g13\<close> are the parameters \<^verbatim>\<open>gtin14\<close> and \<^verbatim>\<open>gtin13\<close>; \<open>rawCode\<close> is
      \<^const>\<open>None\<close> when the caller leaves it out\<close>
  "matchProduct_v4 st g14 g13 rawCode =
     (let idx = masterIndex st
      in case try_exact (master_index.exact idx) (tryExact g14 g13 rawCode) of
           Some n \<Rightarrow> \<lparr>name = n, type = ''EXACT''\<rparr>
         | None \<Rightarrow>
            (case (if or_empty rawCode \<noteq> [] then master_index.rms idx (or_empty rawCode) else None) of
               Some n \<Rightarrow> \<lparr>name = n, type = ''RMS''\<rparr>
             | None \<Rightarrow>
                (case (if g14 \<noteq> [] then master_index.last8 idx (slice_last 8 g14) else None) of
                   Some [m0] \<Rightarrow> \<lparr>name = snd m0, type = ''LAST8''\<rparr>
                 | _ \<Rightarrow> \<lparr>name = [], type = ''NONE''\<rparr>)))"

section \<open>The class \<^verbatim>\<open>PharmacyMatcher\<close>\<close>

text \<open>
  The matcher reads the products of part_002's store (\<^verbatim>\<open>DB.getAllMaster()\<close>), so a
  product is a \<^typ>\<open>master_item\<close>. The fields \<^verbatim>\<open>_barcodeMap\<close> and \<^verbatim>\<open>_ready\<close> lose the
  underscore. A method that throws returns \<^const>\<open>Inl\<close>; \<^verbatim>\<open>null\<close> is \<^const>\<open>None\<close>.
  The parameter \<open>limit\<close> is an integer (10 when the caller leaves it out).

  JavaScript does not type the code or query a caller passes: it is a string, or a
  number such as a barcode read from JSON. \<^verbatim>\<open>matchExact\<close>, \<^verbatim>\<open>matchSeries\<close> and
  \<^verbatim>\<open>smartMatch\<close> turn it into a string with \<^verbatim>\<open>String(...)\<close>; \<^verbatim>\<open>matchByName\<close> calls
  \<^verbatim>\<open>query.trim()\<close> on it as it is, and a number has no method \<^verbatim>\<open>trim\<close>.
\<close>

datatype js_arg = Str string | Num int

definition String_arg :: "js_arg \<Rightarrow> string" where
  \<comment> \<open>\<^verbatim>\<open>String(code)\<close>\<close>
  "String_arg a = (case a of Str s \<Rightarrow> s | Num n \<Rightarrow> String_int n)"

record matcher =
  products :: "master_item list"
  barcodeMap :: "string \<rightharpoonup> master_item"
  ready :: bool

definition constructor :: matcher where
  "constructor = \<lparr>products = [], barcodeMap = Map.empty, ready = False\<rparr>"

definition init :: "js_error + master_item list \<Rightarrow> matcher \<Rightarrow> matcher" where
  \<comment> \<open>\<open>db\<close> is the outcome of \<^verbatim>\<open>await DB.getAllMaster()\<close>; a rejected read is caught and
      logged before anything is assigned\<close>
  "init db m =
     (case db of
        Inl err \<Rightarrow> m
      | Inr ps \<Rightarrow>
          \<lparr>products = ps,
           barcodeMap = fold (\<lambda>p bm. if or_empty (barcode p) \<noteq> []
                                      then bm(trim (or_empty (barcode p)) \<mapsto> p) else bm)
                          ps Map.empty,
           ready = True\<rparr>)"

definition checkReady :: "matcher \<Rightarrow> js_error + unit" where
  "checkReady m = (if \<not> ready m then Inl NotInitialised else Inr ())"

definition matchExact :: "matcher \<Rightarrow> js_arg \<Rightarrow> js_error + master_item option" where
  "matchExact m code =
     (case checkReady m of
        Inl e \<Rightarrow> Inl e
      | Inr u \<Rightarrow> Inr (barcodeMap m (trim (String_arg code))))"

fun series_loop :: "string \<Rightarrow> int \<Rightarrow> master_item list \<Rightarrow> master_item list \<Rightarrow> master_item list" where
  \<comment> \<open>the \<^verbatim>\<open>for\<close> loop of \<^verbatim>\<open>matchSeries\<close> over the products still to visit, with
      \<open>results\<close> as collected so far; the \<^verbatim>\<open>break\<close> returns at once\<close>
  "series_loop query limit [] results = results"
| "series_loop query limit (p # ps) results =
     (let bc = trim (or_empty (barcode p))
      in if startsWith bc query \<or> startsWith query bc then
           (let results = results @ [p]
            in if int (length results) \<ge> limit then results
               else series_loop query limit ps results)
         else series_loop query limit ps results)"

definition matchSeries :: "matcher \<Rightarrow> js_arg \<Rightarrow> int \<Rightarrow> js_error + master_item list" where
  "matchSeries m code limit =
     (case checkReady m of
        Inl e \<Rightarrow> Inl e
      | Inr u \<Rightarrow> Inr (series_loop (trim (String_arg code)) limit (products m) []))"

definition toUpperCase :: "string \<Rightarrow> string" where
  "toUpperCase s =
     map (\<lambda>c. case map_of (zip ''abcdefghijklmnopqrstuvwxyz'' ''ABCDEFGHIJKLMNOPQRSTUVWXYZ'') c of
                 Some u \<Rightarrow> u | None \<Rightarrow> c) s"

fun split_at_spaces :: "string \<Rightarrow> string \<Rightarrow> string list" where
  \<comment> \<open>the pieces between white space characters; the first argument is the piece being
      read, last character first\<close>
  "split_at_spaces w [] = [rev w]"
| "split_at_spaces w (c # cs) =
     (if isSpace c then rev w # split_at_spaces [] cs else split_at_spaces (c # w) cs)"

definition words_of :: "string \<Rightarrow> string list" where
  \<comment> \<open>\<^verbatim>\<open>q.split(/\s+/).filter(Boolean)\<close>: the maximal runs without white space. Splitting
      at every white space character gives these runs and empty strings, which
      \<^verbatim>\<open>filter(Boolean)\<close> drops as it drops the empty pieces of the source's split\<close>
  "words_of q = filter (\<lambda>w. w \<noteq> []) (split_at_spaces [] q)"

definition name_score :: "string \<Rightarrow> string list \<Rightarrow> master_item \<Rightarrow> int" where
  \<comment> \<open>the score the loop body of \<^verbatim>\<open>matchByName\<close> gives one product\<close>
  "name_score q ws p =
     (let nm = toUpperCase (or_empty (master_item.name p))
      in if nm = q then 3
         else if str_includes nm q then 2
         else if list_all (\<lambda>w. str_includes nm w) ws then 1
         else 0)"

definition slice0 :: "'a list \<Rightarrow> int \<Rightarrow> 'a list" where
  \<comment> \<open>\<^verbatim>\<open>xs.slice(0, limit)\<close>: a negative end counts from the end of the array\<close>
  "slice0 xs limit = take (nat (if limit < 0 then int (length xs) + limit else limit)) xs"

definition matchByName :: "matcher \<Rightarrow> js_arg \<Rightarrow> int \<Rightarrow> js_error + (master_item \<times> int) list" where
  \<comment> \<open>\<^verbatim>\<open>query.trim()\<close> throws a \<^verbatim>\<open>TypeError\<close> on a number. A result
      \<^verbatim>\<open>{ ...p, _score: score }\<close> is the pair of the product and its score;
      \<^verbatim>\<open>Array.prototype.sort\<close> is stable, and so is \<^const>\<open>sort_key\<close>\<close>
  "matchByName m query limit =
     (case checkReady m of
        Inl e \<Rightarrow> Inl e
      | Inr u \<Rightarrow>
          (case query of
             Num n \<Rightarrow> Inl TypeError
           | Str s \<Rightarrow>
               (let q = toUpperCase (trim s);
                    ws = words_of q;
                    results = filter (\<lambda>(p, score). score > 0)
                                (map (\<lambda>p. (p, name_score q ws p)) (products m))
                in Inr (slice0 (sort_key (\<lambda>(p, score). - score) results) limit))))"

record smart_result =
  type :: string
  results :: "(master_item \<times> int option) list"

definition smartMatch :: "matcher \<Rightarrow> js_arg \<Rightarrow> int \<Rightarrow> js_error + smart_result" where
  \<comment> \<open>in \<open>results\<close> a product comes with its \<^verbatim>\<open>_score\<close>, \<^const>\<open>None\<close> where the object
      has no such field\<close>
  "smartMatch m query limit =
     (case checkReady m of
        Inl e \<Rightarrow> Inl e
      | Inr u \<Rightarrow>
          (let q = trim (String_arg query);
               isBarcode = (q \<noteq> [] \<and> list_all isDigit q);
               byBarcode =
                 (if isBarcode then
                    (case matchExact m (Str q) of
                       Inl e \<Rightarrow> Inl e
                     | Inr (Some found) \<Rightarrow>
                         Inr (Some \<lparr>type = ''exact_barcode'', results = [(found, None)]\<rparr>)
                     | Inr None \<Rightarrow>
                         (case matchSeries m (Str q) limit of
                            Inl e \<Rightarrow> Inl e
                          | Inr series \<Rightarrow>
                              if series \<noteq> []
                              then Inr (Some \<lparr>type = ''series_barcode'',
                                              results = map (\<lambda>p. (p, None)) series\<rparr>)
                              else Inr None))
                  else Inr None)
           in case byBarcode of
                Inl e \<Rightarrow> Inl e
              | Inr (Some r) \<Rightarrow> Inr r
              | Inr None \<Rightarrow>
                  (case matchByName m (Str q) limit of
                     Inl e \<Rightarrow> Inl e
                   | Inr byName \<Rightarrow>
                       if byName \<noteq> []
                       then Inr \<lparr>type = ''name'', results = map (\<lambda>(p, s). (p, Some s)) byName\<rparr>
                       else Inr \<lparr>type = ''no_match'', results = []\<rparr>)))"

section \<open>Notions used in the statements\<close>

definition norm_barcode :: "master_item \<Rightarrow> string" where
  \<comment> \<open>the code \<^verbatim>\<open>buildMasterIndex\<close> reads from a product: its barcode without the
      characters that are not digits\<close>
  "norm_barcode item = trim (digits_only (or_empty (barcode item)))"

definition norm_rms :: "master_item \<Rightarrow> string" where
  "norm_rms item = trim (or_empty (master_item.rms item))"

definition bucket_of :: "(string \<times> string \<times> string) list \<Rightarrow> string \<Rightarrow> (string \<times> string) list" where
  \<comment> \<open>the indexed products whose barcode has 8 digits or more and ends in \<open>k\<close>, in the
      order of the catalog\<close>
  "bucket_of entries k =
     map (\<lambda>(b, n, r). (b, n)) (filter (\<lambda>(b, n, r). 8 \<le> length b \<and> slice_last 8 b = k) entries)"

definition last8_inv :: "master_index \<Rightarrow> bool" where
  \<comment> \<open>every bucket of \<^verbatim>\<open>last8\<close> holds what \<^verbatim>\<open>all\<close> says it should, and no bucket is
      empty\<close>
  "last8_inv idx = (\<forall>k. master_index.last8 idx k =
      (if bucket_of (all idx) k = [] then None else Some (bucket_of (all idx) k)))"

definition bucket_v3 :: "item_v3 list \<Rightarrow> string \<Rightarrow> item_v3 list" where
  \<comment> \<open>the items whose padded code ends in \<open>k\<close>, in the order of the store\<close>
  "bucket_v3 data k = filter (\<lambda>i. slice_last 8 (padStart 14 (CHR ''0'') (gtin i)) = k) data"

definition series_hit :: "string \<Rightarrow> master_item \<Rightarrow> bool" where
  \<comment> \<open>the condition of the \<^verbatim>\<open>if\<close> in the loop of \<^verbatim>\<open>matchSeries\<close>\<close>
  "series_hit query p =
     (startsWith (trim (or_empty (barcode p))) query \<or> startsWith query (trim (or_empty (barcode p))))"

definition barcode_shaped :: "string \<Rightarrow> bool" where
  \<comment> \<open>the dispatcher's notion of a barcode: one or more characters, all of them decimal
      digits\<close>
  "barcode_shaped q = (q \<noteq> [] \<and> set q \<subseteq> set ''0123456789'')"

definition dispatch :: "bool \<Rightarrow> master_item option \<Rightarrow> master_item list \<Rightarrow> (master_item \<times> int) list
    \<Rightarrow> smart_result" where
  \<comment> \<open>the dispatcher as section 4.6 of the specification words it, from the outcomes of
      the three searches: exact, then series, for a barcode-shaped input; name search when
      both fail or the input is not barcode-shaped; no match when that is empty\<close>
  "dispatch shaped found series byName =
     (if shaped \<and> found \<noteq> None then
        \<lparr>type = ''exact_barcode'', results = [(the found, None)]\<rparr>
      else if shaped \<and> series \<noteq> [] then
        \<lparr>type = ''series_barcode'', results = map (\<lambda>p. (p, None)) series\<rparr>
      else if byName \<noteq> [] then
        \<lparr>type = ''name'', results = map (\<lambda>(p, s). (p, Some s)) byName\<rparr>
      else \<lparr>type = ''no_match'', results = []\<rparr>)"

section \<open>Sample catalogs\<close>

definition catalog_shared :: "master_item list" where
  \<comment> \<open>two products whose barcodes end in the same eight digits\<close>
  "catalog_shared =
     [\<lparr>barcode = Some ''1234567890123'', name = Some ''A'', rms = None\<rparr>,
      \<lparr>barcode = Some ''9934567890123'', name = Some ''B'', rms = None\<rparr>]"

definition store_shared :: "item_v3 list" where
  "store_shared =
     [\<lparr>gtin = ''01234567890123'', name = ''A''\<rparr>, \<lparr>gtin = ''09934567890123'', name = ''B''\<rparr>]"

definition panadol_item :: master_item where
  \<comment> \<open>the product of the usage examples in part_000\<close>
  "panadol_item = \<lparr>barcode = Some ''6291109120100'', name = Some ''Panadol'', rms = Some ''220219715''\<rparr>"

definition nameless_item :: master_item where
  \<comment> \<open>a product of the store that has a barcode and no name\<close>
  "nameless_item = \<lparr>barcode = Some ''12345678'', name = None, rms = None\<rparr>"

definition panadol_baby :: master_item where
  "panadol_baby = \<lparr>barcode = Some ''06291109120100'', name = Some ''PANADOL BABY'', rms = None\<rparr>"

definition panadol_extra :: master_item where
  "panadol_extra = \<lparr>barcode = Some ''06291109120117'', name = Some ''PANADOL EXTRA'', rms = None\<rparr>"

definition no_barcode_item :: master_item where
  \<comment> \<open>a product of the store without a barcode\<close>
  "no_barcode_item = \<lparr>barcode = None, name = Some ''Loose item'', rms = Some ''100200300''\<rparr>"

definition panadol_matcher :: matcher where
  \<comment> \<open>a matcher initialised over the two Panadol products\<close>
  "panadol_matcher = init (Inr [panadol_baby, panadol_extra]) constructor"

definition State_v4 :: state_v4 where
  \<comment> \<open>\<^verbatim>\<open>State\<close> as part_002 declares it\<close>
  "State_v4 = \<lparr>masterIndex = \<lparr>exact = Map.empty, last8 = Map.empty, rms = Map.empty, all = []\<rparr>,
               currentFilter = ''all'', searchQuery = []\<rparr>"

definition State_v3 :: state_v3 where
  \<comment> \<open>\<^verbatim>\<open>State\<close> as app.js declares it\<close>
  "State_v3 = \<lparr>masterData = Map.empty, exact = Map.empty, last8 = Map.empty\<rparr>"

section \<open>Properties\<close>

subsection \<open>The decoder\<close>

lemma digit_not_space: "isDigit c \<Longrightarrow> \<not> isSpace c"
  by (auto simp: isDigit_def isSpace_def)

lemma dropWhile_none: "\<forall>c \<in> set s. \<not> P c \<Longrightarrow> dropWhile P s = s"
  by (cases s) auto

lemma trim_digits: "list_all isDigit s \<Longrightarrow> trim s = s"
  by (simp add: trim_def dropWhile_none digit_not_space list_all_iff)

lemma str_includes_char: "str_includes s [c] \<longleftrightarrow> c \<in> set s"
  by (induction s) (auto simp: startsWith_def)

lemma digits_no_paren:
  assumes "list_all isDigit s"
  shows "\<not> str_includes s ''(''"
proof
  assume "str_includes s ''(''"
  then have "CHR ''('' \<in> set s" by (simp add: str_includes_char)
  with assms have "isDigit (CHR ''('')" by (simp add: list_all_iff)
  then show False by (simp add: isDigit_def)
qed

lemma digits_no_gs: "list_all isDigit s \<Longrightarrow> map (\<lambda>c. if c = CHR 0x1D then CHR ''|'' else c) s = s"
  by (induction s) (auto simp: isDigit_def)

lemma digits_no_crlf: "list_all isDigit s \<Longrightarrow> filter (\<lambda>c. c \<noteq> CHR 0x0D \<and> c \<noteq> CHR 0x0A) s = s"
  by (induction s) (auto simp: isDigit_def)

lemma digits_only_digits: "list_all isDigit s \<Longrightarrow> digits_only s = s"
  by (induction s) (auto simp: digits_only_def)

lemma gtin13_of_hd: "g \<noteq> [] \<Longrightarrow> gtin13_of g = (if hd g = CHR ''0'' then tl g else g)"
  by (cases g) (auto simp: gtin13_of_def startsWith_def drop_Suc)

lemma padStart_length: "length s \<le> n \<Longrightarrow> length (padStart n c s) = n"
  by (simp add: padStart_def)

lemma parseGS1_v3_plain:
  assumes "list_all isDigit D" "8 \<le> length D" "length D \<le> 14"
  shows "parseGS1_v3 tz diff D = Inr \<lparr>valid = True, raw = D, gtin14 = padStart 14 (CHR ''0'') D,
       gtin13 = gtin13_of (padStart 14 (CHR ''0'') D), expiry = None, expiryFormatted = [],
       expiryStatus = ''missing'', batch = [], serial = [], qty = 1\<rparr>"
proof -
  from assms have ne: "D \<noteq> []" by auto
  from assms(1) have code: "map (\<lambda>c. if c = CHR 0x1D then CHR ''|'' else c) (trim D) = D"
    by (simp add: trim_digits digits_no_gs)
  show ?thesis
    unfolding parseGS1_v3_def Let_def code
    using assms ne by (simp add: digits_no_paren)
qed

lemma parseGS1_v4_plain:
  assumes "list_all isDigit D" "8 \<le> length D" "length D \<le> 14"
  shows "parseGS1_v4 D = \<lparr>raw = D, gtin14 = padStart 14 (CHR ''0'') D,
       gtin13 = gtin13_of (padStart 14 (CHR ''0'') D), expiryISO = [], expiryDDMMYY = [],
       expiryDisplay = [], batch = [], serial = [], qty = 1, isGS1 = False\<rparr>"
proof -
  from assms have ne: "D \<noteq> []" by auto
  from assms(1) have code: "filter (\<lambda>c. c \<noteq> CHR 0x0D \<and> c \<noteq> CHR 0x0A) (trim D) = D"
    by (simp add: trim_digits digits_no_crlf)
  show ?thesis
    unfolding parseGS1_v4_def Let_def code
    using assms ne by (simp add: digits_no_paren digits_only_digits)
qed

text \<open>
  Claim C1. For every string of 8 to 14 decimal digits, both decoders return a
  \<open>gtin14\<close> that is the input with zeros put in front up to 14 characters, and a
  \<open>gtin13\<close> that is \<open>gtin14\<close> without its first character when that is a zero,
  and \<open>gtin14\<close> itself otherwise.
\<close>

theorem C1:
  assumes "list_all isDigit D" and "8 \<le> length D" and "length D \<le> 14"
  shows "(\<exists>r. parseGS1_v3 tz diff D = Inr r
            \<and> gs1_v3.gtin14 r = replicate (14 - length D) (CHR ''0'') @ D
            \<and> length (gs1_v3.gtin14 r) = 14
            \<and> gs1_v3.gtin13 r = (if hd (gs1_v3.gtin14 r) = CHR ''0'' then tl (gs1_v3.gtin14 r) else gs1_v3.gtin14 r))
       \<and> gs1_v4.gtin14 (parseGS1_v4 D) = replicate (14 - length D) (CHR ''0'') @ D
       \<and> length (gs1_v4.gtin14 (parseGS1_v4 D)) = 14
       \<and> gs1_v4.gtin13 (parseGS1_v4 D) =
           (if hd (gs1_v4.gtin14 (parseGS1_v4 D)) = CHR ''0''
            then tl (gs1_v4.gtin14 (parseGS1_v4 D)) else gs1_v4.gtin14 (parseGS1_v4 D))"
proof -
  let ?g = "padStart 14 (CHR ''0'') D"
  have l: "length ?g = 14" using assms(3) by (rule padStart_length)
  then have ne: "?g \<noteq> []" by auto
  have p: "?g = replicate (14 - length D) (CHR ''0'') @ D" by (simp add: padStart_def)
  have g13: "gtin13_of ?g = (if hd ?g = CHR ''0'' then tl ?g else ?g)"
    using ne by (rule gtin13_of_hd)
  show ?thesis
    unfolding parseGS1_v3_plain [OF assms] parseGS1_v4_plain [OF assms]
    using l p g13 by simp
qed

theorem C1_witness:
  "list_all isDigit ''12345678''
   \<and> gs1_v4.gtin14 (parseGS1_v4 ''12345678'') = ''00000012345678''
   \<and> gs1_v4.gtin13 (parseGS1_v4 ''12345678'') = ''0000012345678''
   \<and> (\<exists>r. parseGS1_v3 0 (\<lambda>d. 0) ''12345678'' = Inr r \<and> gs1_v3.gtin14 r = ''00000012345678''
          \<and> gs1_v3.gtin13 r = ''0000012345678'')"
proof -
  have d: "list_all isDigit ''12345678''" by (simp add: isDigit_def)
  have r: "replicate (14 - length ''12345678'') (CHR ''0'') @ ''12345678'' = ''00000012345678''"
    by (simp add: eval_nat_numeral)
  from C1 [OF d, of 0 "\<lambda>d. 0"] d show ?thesis
    unfolding r by auto
qed

subsection \<open>Expiry dates\<close>

lemma digit_char_cases:
  assumes "n < 10"
  shows "isDigit (''0123456789'' ! n) \<and> digit_val (''0123456789'' ! n) = n
         \<and> \<not> isSpace (''0123456789'' ! n) \<and> ''0123456789'' ! n \<noteq> CHR ''-''
         \<and> ''0123456789'' ! n \<noteq> CHR ''+'' \<and> ''0123456789'' ! n \<noteq> CHR ''x''
         \<and> ''0123456789'' ! n \<noteq> CHR ''X''"
proof -
  from assms have "n \<in> {0, 1, 2, 3, 4, 5, 6, 7, 8, 9}" by auto
  then show ?thesis
    by (elim insertE emptyE) (simp_all add: isDigit_def digit_val_def isSpace_def)
qed

lemma two_digits_chars:
  assumes "n < 100"
  shows "two_digits n = [''0123456789'' ! (n div 10), ''0123456789'' ! (n mod 10)]"
proof (cases "n < 10")
  case True
  then show ?thesis
    by (simp add: two_digits_def padStart_def string_of_nat.simps [of n])
next
  case False
  with assms have "n div 10 < 10" by simp
  with False show ?thesis
    by (simp add: two_digits_def padStart_def string_of_nat.simps [of n]
        string_of_nat.simps [of "n div 10"])
qed

lemma parse_two_digits:
  assumes "n < 100"
  shows "parseInt (two_digits n) = Some (int n)" and "parseInt10 (two_digits n) = Some (int n)"
proof -
  from assms have a: "n div 10 < 10" and b: "n mod 10 < 10" by simp_all
  note da = digit_char_cases [OF a] and db = digit_char_cases [OF b]
  have v: "digits_val 10 (two_digits n) = n"
    using da db by (simp add: two_digits_chars [OF assms] digits_val_def)
  have t: "takeWhile isDigit (two_digits n) = two_digits n"
    using da db by (simp add: two_digits_chars [OF assms])
  have ne: "two_digits n \<noteq> []"
    by (simp add: two_digits_chars [OF assms])
  have pd: "parse_digits 10 isDigit (two_digits n) = Some (int n)"
    by (simp add: parse_digits_def t v ne)
  have d: "dropWhile isSpace (two_digits n) = two_digits n"
    using da by (simp add: two_digits_chars [OF assms])
  show "parseInt10 (two_digits n) = Some (int n)"
    unfolding parseInt10_def parse_signed_def d
    using da pd by (simp add: two_digits_chars [OF assms])
  show "parseInt (two_digits n) = Some (int n)"
    unfolding parseInt_def parse_signed_def d
    using da db pd by (simp add: two_digits_chars [OF assms] startsWith_def)
qed

lemma two_digits_length: "n < 100 \<Longrightarrow> length (two_digits n) = 2"
  by (simp add: two_digits_chars)

lemma two_digits_all:
  assumes "length s = 2" and "list_all isDigit s"
  shows "\<exists>n < 100. s = two_digits n"
proof -
  from assms(1) obtain a b where s: "s = [a, b]"
    by (cases s; cases "tl s") auto
  with assms(2) have "a \<in> set ''0123456789''" and "b \<in> set ''0123456789''"
    by (simp_all add: isDigit_def)
  then obtain i j where ij: "i < length ''0123456789''" "''0123456789'' ! i = a"
      "j < length ''0123456789''" "''0123456789'' ! j = b"
    by (metis in_set_conv_nth)
  then have i: "i < 10" "a = ''0123456789'' ! i" and j: "j < 10" "b = ''0123456789'' ! j"
    by simp_all
  let ?n = "i * 10 + j"
  from i(1) j(1) have n: "?n < 100" "?n div 10 = i" "?n mod 10 = j" by simp_all
  have "two_digits ?n = [a, b]"
    unfolding two_digits_chars [OF n(1)] n(2,3) using i(2) j(2) by simp
  with s n(1) show ?thesis by metis
qed

lemma substring_fields:
  assumes "length a = 2" and "length b = 2" and "length c = 2"
  shows "substring (a @ b @ c) 0 2 = a" and "substring (a @ b @ c) 2 4 = b"
    and "substring (a @ b @ c) 4 6 = c"
  using assms by (simp_all add: substring_def)

lemma daysInMonth_bounds: "28 \<le> daysInMonth y m \<and> daysInMonth y m \<le> 31"
  by (simp add: daysInMonth_def)

lemma norm_day_in_range:
  "1 \<le> d \<Longrightarrow> d \<le> daysInMonth y m \<Longrightarrow> norm_day y m d = (y, m, d)"
  by (simp add: norm_day.simps [of y m d])

lemma norm_day_zero:
  assumes "0 \<le> m" and "m \<le> 11"
  shows "norm_day y m 0 = (case prev_month y m of (y', m') \<Rightarrow> (y', m', daysInMonth y' m'))"
proof -
  obtain y' m' where p: "prev_month y m = (y', m')" by (cases "prev_month y m")
  have "norm_day y m 0 = norm_day y' m' (daysInMonth y' m')"
    by (simp add: norm_day.simps [of y m 0] p)
  also have "\<dots> = (y', m', daysInMonth y' m')"
    using daysInMonth_bounds [of y' m'] by (intro norm_day_in_range) auto
  finally show ?thesis by (simp add: p)
qed

lemma last_day_of_month:
  assumes "1 \<le> mm" and "mm \<le> 12" and "100 \<le> y"
  shows "last_day_if_zero (Some y) (Some mm) (Some 0) = Some (daysInMonth y (mm - 1))"
proof (cases "mm = 12")
  case True
  then show ?thesis using assms
    by (simp add: last_day_if_zero_def getDate_def Date_new_def MakeDay_def norm_day_zero
        prev_month_def)
next
  case False
  with assms have m: "mm div 12 = 0" "mm mod 12 = mm" by auto
  then show ?thesis using assms False
    by (simp add: last_day_if_zero_def getDate_def Date_new_def MakeDay_def norm_day_zero
        prev_month_def)
qed

lemma Date_new_last_day:
  assumes "1 \<le> mm" and "mm \<le> 12" and "100 \<le> y"
  shows "Date_new (Some y) (Some (mm - 1)) (Some (daysInMonth y (mm - 1)))
         = Some (y, mm - 1, daysInMonth y (mm - 1))"
proof -
  from assms have m: "(mm - 1) div 12 = 0" "(mm - 1) mod 12 = mm - 1" by auto
  show ?thesis using assms daysInMonth_bounds [of y "mm - 1"]
    by (simp add: Date_new_def MakeDay_def m norm_day_in_range)
qed


lemma String_nat: "String (Some (int n)) = string_of_nat n"
  by (simp add: String_def String_int_def)

lemma String_nonneg: "0 \<le> i \<Longrightarrow> String (Some i) = string_of_nat (nat i)"
  by (simp add: String_def String_int_def)

lemma v4_day_zero:
  assumes "yy < 100" and "1 \<le> mm" and "mm \<le> 12"
  shows "expiry_v4.iso (parseExpiryDate_v4 (two_digits yy @ two_digits mm @ ''00'')) =
           string_of_nat (2000 + yy) @ ''-'' @ two_digits mm @ ''-''
             @ two_digits (nat (daysInMonth (2000 + int yy) (int mm - 1)))"
proof -
  from assms have mm: "mm < 100" by simp
  have zz: "''00'' = two_digits 0"
    by (simp add: two_digits_def padStart_def string_of_nat.simps [of 0])
  let ?y = "2000 + int yy" and ?m = "int mm"
  have ld: "last_day_if_zero (Some ?y) (Some ?m) (Some 0) = Some (daysInMonth ?y (?m - 1))"
    using assms by (intro last_day_of_month) auto
  have dn: "Some (daysInMonth ?y (?m - 1)) = Some (int (nat (daysInMonth ?y (?m - 1))))"
    using daysInMonth_bounds [of ?y "?m - 1"] by simp
  have yn: "Some ?y = Some (int (2000 + yy))" by simp
  show ?thesis
    unfolding parseExpiryDate_v4_def Let_def zz
    by (simp add: substring_fields two_digits_length assms mm parse_two_digits ld
          del: of_nat_add)
       (simp only: dn yn String_nat two_digits_def)
qed


lemma v3_day_zero:
  assumes "yy < 100" and "1 \<le> mm" and "mm \<le> 12"
  defines "y \<equiv> (if 50 \<le> yy then 1900 else 2000) + int yy"
  shows "\<exists>p. parseExpiryDate_v3 tz (two_digits yy @ two_digits mm @ ''00'') = Inr p
           \<and> date p = Some (y, int mm - 1, daysInMonth y (int mm - 1))
           \<and> formatted p = two_digits (nat (daysInMonth y (int mm - 1))) @ ''/''
                 @ two_digits mm @ ''/'' @ string_of_nat (nat y)
           \<and> expiry_v3.iso p = iso_date (utc_day tz (y, int mm - 1, daysInMonth y (int mm - 1)))"
proof -
  from assms have mm: "mm < 100" by simp
  have zz: "''00'' = two_digits 0"
    by (simp add: two_digits_def padStart_def string_of_nat.simps [of 0])
  let ?m = "int mm"
  have y100: "100 \<le> y" using assms(1) by (simp add: y_def)
  have py: "pivot_year (Some (int yy)) = Some y"
    by (simp add: pivot_year_def y_def)
  have ld: "last_day_if_zero (Some y) (Some ?m) (Some 0) = Some (daysInMonth y (?m - 1))"
    using assms(2,3) y100 by (intro last_day_of_month) auto
  have dt: "Date_new (Some y) (Some (?m - 1)) (Some (daysInMonth y (?m - 1)))
            = Some (y, ?m - 1, daysInMonth y (?m - 1))"
    using assms(2,3) y100 by (intro Date_new_last_day) auto
  have d0: "0 \<le> daysInMonth y (?m - 1)"
    using daysInMonth_bounds [of y "?m - 1"] by simp
  have y0: "0 \<le> y" using y100 by simp
  show ?thesis
    unfolding parseExpiryDate_v3_def Let_def zz
    by (simp add: substring_fields two_digits_length assms(1) mm parse_two_digits py ld dt
          toISOString_date_def String_nonneg d0 y0)
       (simp add: two_digits_def)
qed

lemma v3_250131:
  "parseExpiryDate_v3 tz ''250131'' =
     Inr \<lparr>date = Some (2025, 0, 31),
          iso = iso_date (norm_day 2025 0 (31 + (- tz) div 1440)),
          formatted = ''31/01/2025''\<rparr>"
proof -
  have s: "substring ''250131'' 0 2 = ''25''" "substring ''250131'' 2 4 = ''01''"
       "substring ''250131'' 4 6 = ''31''"
    by (simp_all add: substring_def)
  have p: "parseInt10 ''25'' = Some 25" "parseInt10 ''01'' = Some 1" "parseInt10 ''31'' = Some 31"
    by (simp_all add: parseInt10_def parse_signed_def parse_digits_def isSpace_def isDigit_def
          digits_val_def digit_val_def)
  have d: "Date_new (Some 2025) (Some 0) (Some 31) = Some (2025, 0, 31)"
    by (simp add: Date_new_def MakeDay_def norm_day_in_range daysInMonth_def)
  have f: "String (Some 31) = ''31''" "String (Some 1) = ''1''" "String (Some 2025) = ''2025''"
    by (simp_all add: String_def String_int_def string_of_nat.simps)
  show ?thesis
    unfolding parseExpiryDate_v3_def Let_def s p
    by (simp add: pivot_year_def last_day_if_zero_def d toISOString_date_def utc_day_def f
          padStart_def)
qed

lemma v3_250131_zone:
  "0 < tz \<Longrightarrow> tz \<le> 1440 \<Longrightarrow>
     map_sum id expiry_v3.iso (parseExpiryDate_v3 tz ''250131'') = Inr ''2025-01-30''"
  "- 1440 < tz \<Longrightarrow> tz \<le> 0 \<Longrightarrow>
     map_sum id expiry_v3.iso (parseExpiryDate_v3 tz ''250131'') = Inr ''2025-01-31''"
proof -
  have a: "0 < tz \<Longrightarrow> tz \<le> 1440 \<Longrightarrow> (- tz) div 1440 = - 1" by linarith
  have b: "- 1440 < tz \<Longrightarrow> tz \<le> 0 \<Longrightarrow> (- tz) div 1440 = 0" by simp
  have i30: "iso_date (2025, 0, 30) = ''2025-01-30''"
    by (simp add: iso_date_def iso_year_def padStart_def string_of_nat.simps)
  have i31: "iso_date (2025, 0, 31) = ''2025-01-31''"
    by (simp add: iso_date_def iso_year_def padStart_def string_of_nat.simps)
  show "0 < tz \<Longrightarrow> tz \<le> 1440 \<Longrightarrow>
     map_sum id expiry_v3.iso (parseExpiryDate_v3 tz ''250131'') = Inr ''2025-01-30''"
    by (simp add: v3_250131 a norm_day_in_range daysInMonth_def i30)
  show "- 1440 < tz \<Longrightarrow> tz \<le> 0 \<Longrightarrow>
     map_sum id expiry_v3.iso (parseExpiryDate_v3 tz ''250131'') = Inr ''2025-01-31''"
    by (simp add: v3_250131 b norm_day_in_range daysInMonth_def i31)
qed

lemma v4_250131: "expiry_v4.iso (parseExpiryDate_v4 ''250131'') = ''2025-01-31''"
proof -
  have s: "substring ''250131'' 0 2 = ''25''" "substring ''250131'' 2 4 = ''01''"
       "substring ''250131'' 4 6 = ''31''"
    by (simp_all add: substring_def)
  have p: "parseInt ''25'' = Some 25" "parseInt ''01'' = Some 1" "parseInt ''31'' = Some 31"
    by (simp_all add: parseInt_def parse_signed_def parse_digits_def isSpace_def isDigit_def
          digits_val_def digit_val_def startsWith_def)
  have f: "String (Some 31) = ''31''" "String (Some 1) = ''1''" "String (Some 2025) = ''2025''"
    by (simp_all add: String_def String_int_def string_of_nat.simps)
  show ?thesis
    unfolding parseExpiryDate_v4_def Let_def s p
    by (simp add: last_day_if_zero_def f padStart_def)
qed


text \<open>
  Claim C5. The field \<^verbatim>\<open>250131\<close> is the date 2025-01-31. part_002 returns that ISO
  date. app.js builds the right local day (\<^verbatim>\<open>formatted\<close> is 31/01/2025) and then takes
  the ISO text from \<^verbatim>\<open>toISOString()\<close>, which is in UTC: at UTC it is 2025-01-31, and
  in a zone four hours east of Greenwich it is 2025-01-30.
\<close>

theorem C5:
  "(\<exists>p. parseExpiryDate_v3 240 ''250131'' = Inr p \<and> expiry_v3.iso p = ''2025-01-30''
        \<and> formatted p = ''31/01/2025'' \<and> date p = Some (2025, 0, 31))
   \<and> (\<exists>p. parseExpiryDate_v3 0 ''250131'' = Inr p \<and> expiry_v3.iso p = ''2025-01-31'')
   \<and> expiry_v4.iso (parseExpiryDate_v4 ''250131'') = ''2025-01-31''"
proof -
  have i30: "iso_date (2025, 0, 30) = ''2025-01-30''"
    by (simp add: iso_date_def iso_year_def padStart_def string_of_nat.simps)
  have i31: "iso_date (2025, 0, 31) = ''2025-01-31''"
    by (simp add: iso_date_def iso_year_def padStart_def string_of_nat.simps)
  show ?thesis
    by (simp add: v3_250131 v4_250131 norm_day_in_range daysInMonth_def i30 i31)
qed

lemma last_day_table:
  assumes "yy < 100" and "1 \<le> mm" and "mm \<le> 12"
    and "y = 2000 + int yy \<or> (50 \<le> yy \<and> y = 1900 + int yy)"
  shows "daysInMonth y (int mm - 1) =
           (if mm = 2 then (if yy mod 4 = 0 then 29 else 28)
            else if mm = 4 \<or> mm = 6 \<or> mm = 9 \<or> mm = 11 then 30 else 31)"
proof -
  have y4: "y mod 4 = 0 \<longleftrightarrow> yy mod 4 = 0"
    using assms(4) by presburger
  have y100: "y mod 100 \<noteq> 0 \<or> y mod 400 = 0"
    using assms(1,4) by presburger
  have leap: "isLeapYear y \<longleftrightarrow> yy mod 4 = 0"
    using y4 y100 by (auto simp: isLeapYear_def)
  from assms(2,3) show ?thesis
    by (auto simp: daysInMonth_def leap)
qed

lemma day_zero_v4:
  assumes "yy < 100" and "1 \<le> mm" and "mm \<le> 12"
  shows "expiry_v4.iso (parseExpiryDate_v4 (two_digits yy @ two_digits mm @ ''00'')) =
           string_of_nat (2000 + yy) @ ''-'' @ two_digits mm @ ''-''
             @ two_digits (if mm = 2 then (if yy mod 4 = 0 then 29 else 28)
                           else if mm = 4 \<or> mm = 6 \<or> mm = 9 \<or> mm = 11 then 30 else 31)"
proof -
  have "nat (daysInMonth (2000 + int yy) (int mm - 1)) =
          (if mm = 2 then (if yy mod 4 = 0 then 29 else 28)
           else if mm = 4 \<or> mm = 6 \<or> mm = 9 \<or> mm = 11 then 30 else 31)"
    by (subst last_day_table [OF assms, of "2000 + int yy"]) simp_all
  with v4_day_zero [OF assms] show ?thesis by simp
qed

lemma day_zero_v3:
  assumes "yy < 100" and "1 \<le> mm" and "mm \<le> 12"
  defines "y \<equiv> (if 50 \<le> yy then 1900 else 2000) + int yy"
    and "d \<equiv> (if mm = 2 then (if yy mod 4 = 0 then 29 else 28)
              else if mm = 4 \<or> mm = 6 \<or> mm = 9 \<or> mm = 11 then 30 else 31 :: int)"
  shows "\<exists>p. parseExpiryDate_v3 tz (two_digits yy @ two_digits mm @ ''00'') = Inr p
           \<and> date p = Some (y, int mm - 1, d)
           \<and> formatted p = two_digits (nat d) @ ''/'' @ two_digits mm @ ''/'' @ string_of_nat (nat y)
           \<and> (- 1440 < tz \<and> tz \<le> 0 \<longrightarrow> expiry_v3.iso p = iso_date (y, int mm - 1, d))
           \<and> (0 < tz \<and> tz \<le> 1440 \<longrightarrow> expiry_v3.iso p = iso_date (y, int mm - 1, d - 1))"
proof -
  have dm: "daysInMonth y (int mm - 1) = d"
    unfolding d_def by (rule last_day_table [OF assms(1-3)]) (auto simp: y_def)
  have b: "28 \<le> d \<and> d \<le> 31" using daysInMonth_bounds [of y "int mm - 1"] dm by simp
  have same: "utc_day tz (y, int mm - 1, d) = (y, int mm - 1, d)" if "- 1440 < tz" "tz \<le> 0"
  proof -
    from that have "(- tz) div 1440 = 0" by simp
    then show ?thesis using b by (simp add: utc_day_def norm_day_in_range dm)
  qed
  have east: "utc_day tz (y, int mm - 1, d) = (y, int mm - 1, d - 1)" if "0 < tz" "tz \<le> 1440"
  proof -
    from that have "(- tz) div 1440 = - 1" by linarith
    then show ?thesis using b by (simp add: utc_day_def norm_day_in_range dm)
  qed
  from v3_day_zero [OF assms(1-3), of tz] show ?thesis
    unfolding y_def [symmetric] dm using same east by auto
qed

text \<open>
  Claim C6. An expiry field whose day is \<^verbatim>\<open>00\<close> means the last day of its month by the
  calendar, so \<^verbatim>\<open>250200\<close> is 2025-02-28. part_002 resolves it so: February 2025 has 28
  days, February 2024 has 29, April 30, December 31 (for every field, lemma
  \<open>day_zero_v4\<close>). app.js finds the same day, builds its \<^verbatim>\<open>Date\<close> and formats it as
  28/02/2025, and then takes \<^verbatim>\<open>iso\<close>, the expiry that \<^verbatim>\<open>parseGS1\<close> stores, from
  \<^verbatim>\<open>toISOString()\<close>: 2025-02-28 at UTC, and 2025-02-27 four hours east of Greenwich
  (for every field, lemma \<open>day_zero_v3\<close>: east of Greenwich it is the day before the
  last day).
\<close>

theorem C6:
  "(\<exists>p. parseExpiryDate_v3 240 ''250200'' = Inr p \<and> expiry_v3.iso p = ''2025-02-27''
        \<and> formatted p = ''28/02/2025'' \<and> date p = Some (2025, 1, 28))
   \<and> (\<exists>p. parseExpiryDate_v3 0 ''250200'' = Inr p \<and> expiry_v3.iso p = ''2025-02-28'')
   \<and> expiry_v4.iso (parseExpiryDate_v4 ''250200'') = ''2025-02-28''
   \<and> expiry_v4.iso (parseExpiryDate_v4 ''240200'') = ''2024-02-29''
   \<and> expiry_v4.iso (parseExpiryDate_v4 ''250400'') = ''2025-04-30''
   \<and> expiry_v4.iso (parseExpiryDate_v4 ''251200'') = ''2025-12-31''"
proof -
  have t: "two_digits 25 = ''25''" "two_digits 24 = ''24''" "two_digits 2 = ''02''"
    "two_digits 4 = ''04''" "two_digits 12 = ''12''" "two_digits 28 = ''28''"
    "two_digits 29 = ''29''" "two_digits 30 = ''30''" "two_digits 31 = ''31''"
    "string_of_nat 2025 = ''2025''" "string_of_nat 2024 = ''2024''"
    by (simp_all add: two_digits_def padStart_def string_of_nat.simps)
  have i: "iso_date (2025, 1, 28) = ''2025-02-28''" "iso_date (2025, 1, 27) = ''2025-02-27''"
    by (simp_all add: iso_date_def iso_year_def padStart_def string_of_nat.simps)
  have a: "\<exists>p. parseExpiryDate_v3 240 ''250200'' = Inr p \<and> expiry_v3.iso p = ''2025-02-27''
        \<and> formatted p = ''28/02/2025'' \<and> date p = Some (2025, 1, 28)"
    using day_zero_v3 [of 25 2 240] by (auto simp: t i)
  have b: "\<exists>p. parseExpiryDate_v3 0 ''250200'' = Inr p \<and> expiry_v3.iso p = ''2025-02-28''"
    using day_zero_v3 [of 25 2 0] by (auto simp: t i)
  have c: "expiry_v4.iso (parseExpiryDate_v4 ''250200'') = ''2025-02-28''"
    using day_zero_v4 [of 25 2] by (simp add: t)
  have d: "expiry_v4.iso (parseExpiryDate_v4 ''240200'') = ''2024-02-29''"
    using day_zero_v4 [of 24 2] by (simp add: t)
  have e: "expiry_v4.iso (parseExpiryDate_v4 ''250400'') = ''2025-04-30''"
    using day_zero_v4 [of 25 4] by (simp add: t)
  have f: "expiry_v4.iso (parseExpiryDate_v4 ''251200'') = ''2025-12-31''"
    using day_zero_v4 [of 25 12] by (simp add: t)
  from a b c d e f show ?thesis by (intro conjI)
qed

subsection \<open>The master index\<close>

lemma bucket_of_snoc:
  "bucket_of (es @ [(b, n, r)]) k =
     bucket_of es k @ (if 8 \<le> length b \<and> slice_last 8 b = k then [(b, n)] else [])"
  by (simp add: bucket_of_def)

lemma index_barcode_last8:
  "master_index.last8 (index_barcode bc nm idx) k =
     (if 8 \<le> length bc \<and> slice_last 8 bc = k
      then Some ((case master_index.last8 idx k of None \<Rightarrow> [] | Some es \<Rightarrow> es) @ [(bc, nm)])
      else master_index.last8 idx k)"
  by (auto simp: index_barcode_def Let_def split: option.splits)

lemma index_barcode_all: "all (index_barcode bc nm idx) = all idx"
  by (simp add: index_barcode_def Let_def)

lemma index_item_last8:
  "master_index.last8 (index_item item idx) k =
     (if (norm_barcode item \<noteq> [] \<or> norm_rms item \<noteq> []) \<and> or_empty (master_item.name item) \<noteq> []
         \<and> 8 \<le> length (norm_barcode item) \<and> slice_last 8 (norm_barcode item) = k
      then Some ((case master_index.last8 idx k of None \<Rightarrow> [] | Some es \<Rightarrow> es)
                 @ [(norm_barcode item, or_empty (master_item.name item))])
      else master_index.last8 idx k)"
  by (auto simp: index_item_def Let_def norm_barcode_def norm_rms_def index_barcode_last8)

lemma index_item_all:
  "all (index_item item idx) =
     all idx @ (if (norm_barcode item \<noteq> [] \<or> norm_rms item \<noteq> []) \<and> or_empty (master_item.name item) \<noteq> []
                then [(norm_barcode item, or_empty (master_item.name item), norm_rms item)] else [])"
  by (auto simp: index_item_def Let_def norm_barcode_def norm_rms_def index_barcode_all)

lemma index_item_inv:
  assumes "last8_inv idx"
  shows "last8_inv (index_item item idx)"
  unfolding last8_inv_def
proof
  fix k
  from assms have o: "master_index.last8 idx k =
      (if bucket_of (all idx) k = [] then None else Some (bucket_of (all idx) k))"
    by (simp add: last8_inv_def)
  show "master_index.last8 (index_item item idx) k =
      (if bucket_of (all (index_item item idx)) k = [] then None
       else Some (bucket_of (all (index_item item idx)) k))"
    by (simp add: index_item_last8 index_item_all bucket_of_snoc o)
qed

lemma fold_index_inv: "last8_inv idx \<Longrightarrow> last8_inv (fold index_item md idx)"
  by (induction md arbitrary: idx) (simp_all add: index_item_inv)

lemma buildMasterIndex_inv: "last8_inv (buildMasterIndex md)"
  unfolding buildMasterIndex_def
  by (rule fold_index_inv) (simp add: last8_inv_def bucket_of_def)

lemma buildMasterIndex_last8:
  "master_index.last8 (buildMasterIndex md) k =
     (if bucket_of (all (buildMasterIndex md)) k = [] then None
      else Some (bucket_of (all (buildMasterIndex md)) k))"
  using buildMasterIndex_inv [of md] by (simp add: last8_inv_def)

lemma two_members_length:
  assumes "x \<in> set xs" and "y \<in> set xs" and "x \<noteq> y"
  shows "2 \<le> length xs"
proof (cases xs)
  case Nil
  with assms show ?thesis by simp
next
  case (Cons a as)
  with assms show ?thesis by (cases as) auto
qed

lemma bucket_two:
  assumes "(b1, n1, r1) \<in> set es" and "(b2, n2, r2) \<in> set es" and "b1 \<noteq> b2"
    and "8 \<le> length b1" and "8 \<le> length b2"
    and "slice_last 8 b1 = k" and "slice_last 8 b2 = k"
  shows "2 \<le> length (bucket_of es k)"
proof -
  have "(b1, n1) \<in> set (bucket_of es k)" and "(b2, n2) \<in> set (bucket_of es k)"
    using assms by (force simp: bucket_of_def)+
  moreover have "(b1, n1) \<noteq> (b2, n2)" using assms(3) by simp
  ultimately show ?thesis by (rule two_members_length)
qed

lemma matchProduct_v4_last8_only_if:
  assumes "match_v4.type (matchProduct_v4 st g14 g13 rawCode) = ''LAST8''"
  shows "\<exists>c. master_index.last8 (masterIndex st) (slice_last 8 g14) = Some [c]
           \<and> match_v4.name (matchProduct_v4 st g14 g13 rawCode) = snd c"
  using assms
  by (auto simp: matchProduct_v4_def Let_def split: option.splits list.splits if_splits)

lemma slice_last_short: "length s \<le> n \<Longrightarrow> slice_last n s = s"
  by (simp add: slice_last_def)

lemma slice_last_length: "length (slice_last n s) = min n (length s)"
  by (simp add: slice_last_def)

lemma shared_last8_long:
  assumes "slice_last 8 b1 = slice_last 8 b2" and "b1 \<noteq> b2"
  shows "8 \<le> length b1 \<and> 8 \<le> length b2"
proof (rule ccontr)
  assume "\<not> (8 \<le> length b1 \<and> 8 \<le> length b2)"
  then consider "length b1 < 8" | "length b2 < 8" by linarith
  then show False
  proof cases
    case 1
    then have "slice_last 8 b1 = b1" by (simp add: slice_last_short)
    with assms(1) have e: "slice_last 8 b2 = b1" by simp
    then have "min 8 (length b2) = length b1" using slice_last_length [of 8 b2] by simp
    with 1 have "length b2 < 8" by simp
    then have "slice_last 8 b2 = b2" by (simp add: slice_last_short)
    with e assms(2) show False by simp
  next
    case 2
    then have "slice_last 8 b2 = b2" by (simp add: slice_last_short)
    with assms(1) have e: "slice_last 8 b1 = b2" by simp
    then have "min 8 (length b1) = length b2" using slice_last_length [of 8 b1] by simp
    with 2 have "length b1 < 8" by simp
    then have "slice_last 8 b1 = b1" by (simp add: slice_last_short)
    with e assms(2) show False by simp
  qed
qed

lemma load_item_v3_last8:
  "state_v3.last8 (load_item_v3 item st) k =
     (if slice_last 8 (padStart 14 (CHR ''0'') (gtin item)) = k
      then Some ((case state_v3.last8 st k of None \<Rightarrow> [] | Some es \<Rightarrow> es) @ [item])
      else state_v3.last8 st k)"
  by (auto simp: load_item_v3_def Let_def split: option.splits)

lemma fold_load_last8:
  "state_v3.last8 (fold load_item_v3 data st) k =
     (if bucket_v3 data k = [] then state_v3.last8 st k
      else Some ((case state_v3.last8 st k of None \<Rightarrow> [] | Some es \<Rightarrow> es) @ bucket_v3 data k))"
proof (induction data arbitrary: st)
  case Nil
  show ?case by (simp add: bucket_v3_def)
next
  case (Cons i data)
  show ?case
    by (simp add: Cons.IH load_item_v3_last8) (simp add: bucket_v3_def)
qed

lemma loadMasterData_last8:
  "state_v3.last8 (loadMasterData (Inr data) st) k =
     (if bucket_v3 data k = [] then None else Some (bucket_v3 data k))"
  by (simp add: loadMasterData_def fold_load_last8)

lemma matchProduct_v3_last8_only_if:
  assumes "matchType (matchProduct_v3 st g14) = ''last8''"
  shows "\<exists>c. state_v3.last8 st (slice_last 8 g14) = Some [c]
           \<and> product (matchProduct_v3 st g14) = Some c"
  using assms
  by (auto simp: matchProduct_v3_def Let_def split: option.splits list.splits)

lemma matchProduct_v4_cases:
  "match_v4.type (matchProduct_v4 st g14 g13 rawCode) = ''EXACT''
   \<or> match_v4.type (matchProduct_v4 st g14 g13 rawCode) = ''RMS''
   \<or> match_v4.type (matchProduct_v4 st g14 g13 rawCode) = ''LAST8''
   \<or> matchProduct_v4 st g14 g13 rawCode = \<lparr>match_v4.name = [], match_v4.type = ''NONE''\<rparr>"
  by (simp add: matchProduct_v4_def Let_def split: option.splits list.splits)

lemma matchProduct_v3_cases:
  "matchType (matchProduct_v3 st g14) = ''exact''
   \<or> matchType (matchProduct_v3 st g14) = ''last8''
   \<or> matchProduct_v3 st g14 = \<lparr>product = None, matchType = ''none''\<rparr>"
  by (simp add: matchProduct_v3_def Let_def split: option.splits list.splits)

lemma ambiguous_v4:
  assumes "(b1, n1, r1) \<in> set (all (buildMasterIndex md))"
    and "(b2, n2, r2) \<in> set (all (buildMasterIndex md))"
    and "b1 \<noteq> b2" and "slice_last 8 b1 = slice_last 8 b2"
    and "slice_last 8 g14 = slice_last 8 b1"
  shows "match_v4.type (matchProduct_v4 (refreshMasterStats md st) g14 g13 rawCode) \<noteq> ''LAST8''"
proof
  let ?k = "slice_last 8 g14"
  assume "match_v4.type (matchProduct_v4 (refreshMasterStats md st) g14 g13 rawCode) = ''LAST8''"
  then obtain c where "master_index.last8 (buildMasterIndex md) ?k = Some [c]"
    using matchProduct_v4_last8_only_if [of "refreshMasterStats md st" g14 g13 rawCode]
    by (auto simp: refreshMasterStats_def)
  then have one: "bucket_of (all (buildMasterIndex md)) ?k = [c]"
    by (simp add: buildMasterIndex_last8 split: if_splits)
  have "8 \<le> length b1 \<and> 8 \<le> length b2"
    using assms(4,3) by (rule shared_last8_long)
  then have "2 \<le> length (bucket_of (all (buildMasterIndex md)) ?k)"
    using assms(4,5) by (intro bucket_two [OF assms(1,2,3)]) simp_all
  with one show False by simp
qed

lemma ambiguous_v3:
  assumes "i1 \<in> set data" and "i2 \<in> set data" and "gtin i1 \<noteq> gtin i2"
    and "slice_last 8 (padStart 14 (CHR ''0'') (gtin i1)) = slice_last 8 (padStart 14 (CHR ''0'') (gtin i2))"
    and "slice_last 8 g14 = slice_last 8 (padStart 14 (CHR ''0'') (gtin i1))"
  shows "matchType (matchProduct_v3 (loadMasterData (Inr data) st) g14) \<noteq> ''last8''"
proof
  let ?k = "slice_last 8 g14"
  assume "matchType (matchProduct_v3 (loadMasterData (Inr data) st) g14) = ''last8''"
  then obtain c where "state_v3.last8 (loadMasterData (Inr data) st) ?k = Some [c]"
    using matchProduct_v3_last8_only_if by blast
  then have one: "bucket_v3 data ?k = [c]"
    by (simp add: loadMasterData_last8 split: if_splits)
  have "i1 \<in> set (bucket_v3 data ?k)" and "i2 \<in> set (bucket_v3 data ?k)"
    using assms by (simp_all add: bucket_v3_def)
  moreover have "i1 \<noteq> i2" using assms(3) by auto
  ultimately have "2 \<le> length (bucket_v3 data ?k)" by (rule two_members_length)
  with one show False by simp
qed

text \<open>
  Claim C2. When two products of the index have distinct codes that end in the same
  eight digits, a \<open>gtin14\<close> ending in these digits is never matched at the last-eight
  tier: the outcome is no match unless an earlier tier (exact, RMS) hits. At any index,
  that tier succeeds only on a bucket of exactly one candidate, which it returns. The
  first and second conjunct are about part_002, the third and fourth about app.js.
\<close>

theorem C2:
  "((b1, n1, r1) \<in> set (all (buildMasterIndex md)) \<and> (b2, n2, r2) \<in> set (all (buildMasterIndex md))
      \<and> b1 \<noteq> b2 \<and> slice_last 8 b1 = slice_last 8 b2 \<and> slice_last 8 g14 = slice_last 8 b1
    \<longrightarrow> match_v4.type (matchProduct_v4 (refreshMasterStats md st) g14 g13 rawCode) \<noteq> ''LAST8''
        \<and> (matchProduct_v4 (refreshMasterStats md st) g14 g13 rawCode
              = \<lparr>match_v4.name = [], match_v4.type = ''NONE''\<rparr>
            \<or> match_v4.type (matchProduct_v4 (refreshMasterStats md st) g14 g13 rawCode) = ''EXACT''
            \<or> match_v4.type (matchProduct_v4 (refreshMasterStats md st) g14 g13 rawCode) = ''RMS''))
   \<and> (match_v4.type (matchProduct_v4 st' g14 g13 rawCode) = ''LAST8''
    \<longrightarrow> (\<exists>c. master_index.last8 (masterIndex st') (slice_last 8 g14) = Some [c]
           \<and> match_v4.name (matchProduct_v4 st' g14 g13 rawCode) = snd c))
   \<and> (i1 \<in> set data \<and> i2 \<in> set data \<and> gtin i1 \<noteq> gtin i2
      \<and> slice_last 8 (padStart 14 (CHR ''0'') (gtin i1)) = slice_last 8 (padStart 14 (CHR ''0'') (gtin i2))
      \<and> slice_last 8 g14 = slice_last 8 (padStart 14 (CHR ''0'') (gtin i1))
    \<longrightarrow> matchType (matchProduct_v3 (loadMasterData (Inr data) s3) g14) \<noteq> ''last8''
        \<and> (matchProduct_v3 (loadMasterData (Inr data) s3) g14 = \<lparr>product = None, matchType = ''none''\<rparr>
            \<or> matchType (matchProduct_v3 (loadMasterData (Inr data) s3) g14) = ''exact''))
   \<and> (matchType (matchProduct_v3 s3' g14) = ''last8''
    \<longrightarrow> (\<exists>c. state_v3.last8 s3' (slice_last 8 g14) = Some [c]
           \<and> product (matchProduct_v3 s3' g14) = Some c))"
  using ambiguous_v4 [of b1 n1 r1 md b2 n2 r2 g14 st g13 rawCode]
    matchProduct_v4_cases [of "refreshMasterStats md st" g14 g13 rawCode]
    matchProduct_v4_last8_only_if [of st' g14 g13 rawCode]
    ambiguous_v3 [of i1 data i2 g14 s3]
    matchProduct_v3_cases [of "loadMasterData (Inr data) s3" g14]
    matchProduct_v3_last8_only_if [of s3' g14]
  by blast


lemma fold_index_all:
  "all (fold index_item md idx) =
     all idx @ map (\<lambda>i. (norm_barcode i, or_empty (master_item.name i), norm_rms i))
       (filter (\<lambda>i. (norm_barcode i \<noteq> [] \<or> norm_rms i \<noteq> []) \<and> or_empty (master_item.name i) \<noteq> []) md)"
  by (induction md arbitrary: idx) (simp_all add: index_item_all)

lemma all_catalog_shared:
  "all (buildMasterIndex catalog_shared) = [(''1234567890123'', ''A'', []), (''9934567890123'', ''B'', [])]"
  unfolding buildMasterIndex_def fold_index_all
  by (simp add: catalog_shared_def norm_barcode_def norm_rms_def
      or_empty_def digits_only_def isDigit_def trim_def isSpace_def)

theorem C2_witness:
  "(''1234567890123'', ''A'', []) \<in> set (all (buildMasterIndex catalog_shared))
   \<and> (''9934567890123'', ''B'', []) \<in> set (all (buildMasterIndex catalog_shared))
   \<and> slice_last 8 ''1234567890123'' = slice_last 8 ''9934567890123''
   \<and> slice_last 8 ''00555567890123'' = slice_last 8 ''1234567890123''
   \<and> match_v4.type (matchProduct_v4 (refreshMasterStats catalog_shared State_v4)
        ''00555567890123'' ''0555567890123'' (Some ''555567890123'')) \<noteq> ''LAST8''
   \<and> matchType (matchProduct_v3 (loadMasterData (Inr store_shared) State_v3) ''00555567890123'') \<noteq> ''last8''"
proof -
  have a: "(''1234567890123'', ''A'', []) \<in> set (all (buildMasterIndex catalog_shared))"
    and b: "(''9934567890123'', ''B'', []) \<in> set (all (buildMasterIndex catalog_shared))"
    by (simp_all add: all_catalog_shared)
  have c: "slice_last 8 ''1234567890123'' = slice_last 8 ''9934567890123''"
    and d: "slice_last 8 ''00555567890123'' = slice_last 8 ''1234567890123''"
    by (simp_all add: slice_last_def)
  have e: "\<lparr>gtin = ''01234567890123'', name = ''A''\<rparr> \<in> set store_shared"
    and f: "\<lparr>gtin = ''09934567890123'', name = ''B''\<rparr> \<in> set store_shared"
    by (simp_all add: store_shared_def)
  have g: "slice_last 8 (padStart 14 (CHR ''0'') ''01234567890123'')
           = slice_last 8 (padStart 14 (CHR ''0'') ''09934567890123'')"
    and h: "slice_last 8 ''00555567890123'' = slice_last 8 (padStart 14 (CHR ''0'') ''01234567890123'')"
    by (simp_all add: slice_last_def padStart_def)
  from C2 [of "''1234567890123''" "''A''" "[]" catalog_shared "''9934567890123''" "''B''" "[]"
      "''00555567890123''" State_v4 "''0555567890123''" "Some ''555567890123''" State_v4
      "\<lparr>gtin = ''01234567890123'', name = ''A''\<rparr>" store_shared
      "\<lparr>gtin = ''09934567890123'', name = ''B''\<rparr>" State_v3 State_v3]
    a b c d e f g h
  show ?thesis by simp
qed


lemma index_barcode_exact:
  "master_index.exact (index_barcode bc nm idx) k =
     (if k = bc \<or> k = padStart 14 (CHR ''0'') bc
         \<or> (startsWith (padStart 14 (CHR ''0'') bc) ''0'' \<and> k = drop 1 (padStart 14 (CHR ''0'') bc))
         \<or> (5 \<le> length (strip_zeros bc) \<and> k = strip_zeros bc)
      then Some nm else master_index.exact idx k)"
  by (simp add: index_barcode_def Let_def)

lemma index_item_exact:
  assumes "or_empty (master_item.name item) \<noteq> []" and "norm_barcode item \<noteq> []"
  shows "master_index.exact (index_item item idx) k =
     (if (norm_rms item \<noteq> [] \<and> k = norm_rms item) \<or> k = norm_barcode item
         \<or> k = padStart 14 (CHR ''0'') (norm_barcode item)
         \<or> (startsWith (padStart 14 (CHR ''0'') (norm_barcode item)) ''0''
             \<and> k = drop 1 (padStart 14 (CHR ''0'') (norm_barcode item)))
         \<or> (5 \<le> length (strip_zeros (norm_barcode item)) \<and> k = strip_zeros (norm_barcode item))
      then Some (or_empty (master_item.name item)) else master_index.exact idx k)"
  using assms
  by (simp add: index_item_def Let_def index_barcode_exact norm_barcode_def norm_rms_def)

lemma index_item_dropped:
  assumes "(norm_barcode item = [] \<and> norm_rms item = []) \<or> or_empty (master_item.name item) = []"
  shows "index_item item idx = idx"
  using assms by (auto simp: index_item_def Let_def norm_barcode_def norm_rms_def)

lemma index_item_exact_keeps:
  assumes "master_index.exact idx k \<noteq> None"
  shows "master_index.exact (index_item item idx) k \<noteq> None"
proof (cases "(norm_barcode item = [] \<and> norm_rms item = []) \<or> or_empty (master_item.name item) = []")
  case True
  with assms show ?thesis by (simp add: index_item_dropped)
next
  case False
  with assms show ?thesis
    by (auto simp: index_item_def Let_def index_barcode_exact norm_barcode_def norm_rms_def)
qed

lemma fold_index_exact_keeps:
  "master_index.exact idx k \<noteq> None \<Longrightarrow> master_index.exact (fold index_item md idx) k \<noteq> None"
proof (induction md arbitrary: idx)
  case Nil
  then show ?case by simp
next
  case (Cons a md)
  from Cons.prems have "master_index.exact (index_item a idx) k \<noteq> None"
    by (rule index_item_exact_keeps)
  then have "master_index.exact (fold index_item md (index_item a idx)) k \<noteq> None"
    by (rule Cons.IH)
  then show ?case by simp
qed

lemma buildMasterIndex_split:
  "buildMasterIndex (md1 @ item # md2) = fold index_item md2 (index_item item (buildMasterIndex md1))"
  by (simp add: buildMasterIndex_def)

lemma load_item_v3_exact:
  "state_v3.exact (load_item_v3 it st) (padStart 14 (CHR ''0'') (gtin it)) = Some it"
  by (simp add: load_item_v3_def Let_def)

lemma load_item_v3_exact_other:
  "k \<noteq> padStart 14 (CHR ''0'') (gtin it) \<Longrightarrow> state_v3.exact (load_item_v3 it st) k = state_v3.exact st k"
  by (simp add: load_item_v3_def Let_def)

text \<open>
  Claim C7, amended. For a product that has a name and whose barcode, stripped of what
  is not a digit, is not empty, one step of \<^verbatim>\<open>buildMasterIndex\<close> maps the stripped code,
  its form padded to 14 digits and, when that starts with a zero, the padded form without
  it to the product's name; so does the index of a catalog that ends with the product,
  and in the index of any catalog with the product these keys are present (a later
  product with the same key overwrites the name). A product without a name, or with
  neither barcode nor RMS code, leaves the index as it is. \<^verbatim>\<open>loadMasterData\<close> of app.js
  registers an item under its padded code and under no other key.
\<close>

theorem C7:
  "(or_empty (master_item.name item) \<noteq> [] \<and> norm_barcode item \<noteq> [] \<and> nm = or_empty (master_item.name item)
      \<and> bc = norm_barcode item \<and> g = padStart 14 (CHR ''0'') bc
    \<longrightarrow> master_index.exact (index_item item idx) bc = Some nm
        \<and> master_index.exact (index_item item idx) g = Some nm
        \<and> (startsWith g ''0'' \<longrightarrow> master_index.exact (index_item item idx) (drop 1 g) = Some nm)
        \<and> master_index.exact (buildMasterIndex (md1 @ [item])) bc = Some nm
        \<and> master_index.exact (buildMasterIndex (md1 @ [item])) g = Some nm
        \<and> (startsWith g ''0'' \<longrightarrow> master_index.exact (buildMasterIndex (md1 @ [item])) (drop 1 g) = Some nm)
        \<and> master_index.exact (buildMasterIndex (md1 @ item # md2)) bc \<noteq> None
        \<and> master_index.exact (buildMasterIndex (md1 @ item # md2)) g \<noteq> None
        \<and> (startsWith g ''0'' \<longrightarrow> master_index.exact (buildMasterIndex (md1 @ item # md2)) (drop 1 g) \<noteq> None))
   \<and> ((norm_barcode other = [] \<and> norm_rms other = []) \<or> or_empty (master_item.name other) = []
    \<longrightarrow> index_item other idx = idx
        \<and> buildMasterIndex (md1 @ other # md2) = buildMasterIndex (md1 @ md2))
   \<and> state_v3.exact (load_item_v3 it s3) (padStart 14 (CHR ''0'') (gtin it)) = Some it
   \<and> (k \<noteq> padStart 14 (CHR ''0'') (gtin it) \<longrightarrow> state_v3.exact (load_item_v3 it s3) k = state_v3.exact s3 k)"
proof -
  let ?i1 = "index_item item idx" and ?i2 = "buildMasterIndex (md1 @ [item])"
    and ?i3 = "buildMasterIndex (md1 @ item # md2)"
  have last: "?i2 = index_item item (buildMasterIndex md1)"
    by (simp add: buildMasterIndex_def)
  have final: "master_index.exact ?i3 k' \<noteq> None"
    if "master_index.exact (index_item item (buildMasterIndex md1)) k' = Some nm" for k'
    unfolding buildMasterIndex_split using that by (intro fold_index_exact_keeps) simp
  have A: "or_empty (master_item.name item) \<noteq> [] \<and> norm_barcode item \<noteq> [] \<and> nm = or_empty (master_item.name item)
      \<and> bc = norm_barcode item \<and> g = padStart 14 (CHR ''0'') bc
    \<longrightarrow> master_index.exact ?i1 bc = Some nm
        \<and> master_index.exact ?i1 g = Some nm
        \<and> (startsWith g ''0'' \<longrightarrow> master_index.exact ?i1 (drop 1 g) = Some nm)
        \<and> master_index.exact ?i2 bc = Some nm
        \<and> master_index.exact ?i2 g = Some nm
        \<and> (startsWith g ''0'' \<longrightarrow> master_index.exact ?i2 (drop 1 g) = Some nm)
        \<and> master_index.exact ?i3 bc \<noteq> None
        \<and> master_index.exact ?i3 g \<noteq> None
        \<and> (startsWith g ''0'' \<longrightarrow> master_index.exact ?i3 (drop 1 g) \<noteq> None)"
  proof (intro impI, elim conjE)
    assume h: "or_empty (master_item.name item) \<noteq> []" "norm_barcode item \<noteq> []"
      and e: "nm = or_empty (master_item.name item)" "bc = norm_barcode item"
        "g = padStart 14 (CHR ''0'') bc"
    have s1: "master_index.exact (index_item item i) bc = Some nm" for i
      by (simp add: index_item_exact [OF h] e)
    have s2: "master_index.exact (index_item item i) g = Some nm" for i
      by (simp add: index_item_exact [OF h] e)
    have s3: "master_index.exact (index_item item i) (drop 1 g) = Some nm" if "startsWith g ''0''" for i
      using that by (simp add: index_item_exact [OF h] e)
    show "master_index.exact ?i1 bc = Some nm
        \<and> master_index.exact ?i1 g = Some nm
        \<and> (startsWith g ''0'' \<longrightarrow> master_index.exact ?i1 (drop 1 g) = Some nm)
        \<and> master_index.exact ?i2 bc = Some nm
        \<and> master_index.exact ?i2 g = Some nm
        \<and> (startsWith g ''0'' \<longrightarrow> master_index.exact ?i2 (drop 1 g) = Some nm)
        \<and> master_index.exact ?i3 bc \<noteq> None
        \<and> master_index.exact ?i3 g \<noteq> None
        \<and> (startsWith g ''0'' \<longrightarrow> master_index.exact ?i3 (drop 1 g) \<noteq> None)"
      unfolding last
      by (intro conjI impI s1 s2 s3 final) assumption+
  qed
  have B: "(norm_barcode other = [] \<and> norm_rms other = []) \<or> or_empty (master_item.name other) = []
    \<longrightarrow> index_item other idx = idx
        \<and> buildMasterIndex (md1 @ other # md2) = buildMasterIndex (md1 @ md2)"
    by (simp add: index_item_dropped buildMasterIndex_def)
  have C: "state_v3.exact (load_item_v3 it s3) (padStart 14 (CHR ''0'') (gtin it)) = Some it"
    by (rule load_item_v3_exact)
  have D: "k \<noteq> padStart 14 (CHR ''0'') (gtin it) \<longrightarrow> state_v3.exact (load_item_v3 it s3) k = state_v3.exact s3 k"
    by (simp add: load_item_v3_exact_other)
  from A B C D show ?thesis by (intro conjI)
qed


theorem C7_counterexample:
  "norm_barcode nameless_item = ''12345678''
   \<and> master_index.exact (buildMasterIndex [nameless_item]) ''12345678'' = None
   \<and> master_index.exact (buildMasterIndex [nameless_item]) ''00000012345678'' = None
   \<and> master_index.exact (buildMasterIndex [nameless_item]) ''0000012345678'' = None
   \<and> state_v3.exact (loadMasterData (Inr [\<lparr>gtin = ''12345678'', name = ''A''\<rparr>]) State_v3)
         ''12345678'' = None
   \<and> state_v3.exact (loadMasterData (Inr [\<lparr>gtin = ''12345678'', name = ''A''\<rparr>]) State_v3)
         ''0000012345678'' = None"
proof -
  have n: "norm_barcode nameless_item = ''12345678''"
    by (simp add: nameless_item_def norm_barcode_def or_empty_def digits_only_def isDigit_def
        trim_def isSpace_def)
  have d: "index_item nameless_item i = i" for i
    by (rule index_item_dropped) (simp add: nameless_item_def or_empty_def)
  have p: "padStart 14 (CHR ''0'') ''12345678'' = ''00000012345678''"
    by (simp add: padStart_def eval_nat_numeral)
  have v3: "state_v3.exact (loadMasterData (Inr [\<lparr>gtin = ''12345678'', name = ''A''\<rparr>]) State_v3) k = None"
    if "k \<noteq> ''00000012345678''" for k
    using that by (simp add: loadMasterData_def load_item_v3_exact_other p State_v3_def)
  show ?thesis
    by (simp add: n buildMasterIndex_def d v3)
qed

theorem C7_witness:
  "norm_barcode panadol_item = ''6291109120100''
   \<and> or_empty (master_item.name panadol_item) = ''Panadol''
   \<and> or_empty (master_item.name nameless_item) = []
   \<and> master_index.exact (buildMasterIndex [panadol_item]) ''6291109120100'' = Some ''Panadol''
   \<and> master_index.exact (buildMasterIndex [panadol_item]) ''06291109120100'' = Some ''Panadol''
   \<and> master_index.exact (buildMasterIndex [panadol_item, nameless_item]) ''06291109120100'' \<noteq> None
   \<and> buildMasterIndex [panadol_item, nameless_item] = buildMasterIndex [panadol_item]"
proof -
  have n: "norm_barcode panadol_item = ''6291109120100''"
    by (simp add: panadol_item_def norm_barcode_def or_empty_def digits_only_def isDigit_def
        trim_def isSpace_def)
  have m: "or_empty (master_item.name panadol_item) = ''Panadol''"
    by (simp add: panadol_item_def or_empty_def)
  have o: "or_empty (master_item.name nameless_item) = []"
    by (simp add: nameless_item_def or_empty_def)
  have g: "padStart 14 (CHR ''0'') ''6291109120100'' = ''06291109120100''"
    by (simp add: padStart_def)
  from C7 [of panadol_item "''Panadol''" "''6291109120100''" "''06291109120100''"
      "masterIndex State_v4" "[]" "[nameless_item]" nameless_item
      "\<lparr>gtin = ''06291109120100'', name = ''Panadol''\<rparr>" State_v3 "[]"]
    C7 [of panadol_item "''Panadol''" "''6291109120100''" "''06291109120100''"
      "masterIndex State_v4" "[panadol_item]" "[]" nameless_item
      "\<lparr>gtin = ''06291109120100'', name = ''Panadol''\<rparr>" State_v3 "[]"]
  show ?thesis
    by (simp add: n m o g)
qed

lemma matchProduct_v4_index:
  "masterIndex st = masterIndex st' \<Longrightarrow>
     matchProduct_v4 st g14 g13 rawCode = matchProduct_v4 st' g14 g13 rawCode"
  by (simp add: matchProduct_v4_def)

lemma loadMasterData_fresh:
  "loadMasterData (Inr data) st = fold load_item_v3 data State_v3"
  by (cases st) (simp add: loadMasterData_def State_v3_def)

text \<open>
  Claim C8. Rebuilding the index from the same catalog gives the same index and the same
  match for every query, whatever the state was before: \<^verbatim>\<open>refreshMasterStats\<close> replaces
  the index of part_002, and \<^verbatim>\<open>loadMasterData\<close> of app.js clears its maps before it
  fills them.
\<close>

theorem C8:
  "masterIndex (refreshMasterStats md (refreshMasterStats md st)) = masterIndex (refreshMasterStats md st')
   \<and> matchProduct_v4 (refreshMasterStats md (refreshMasterStats md st)) g14 g13 rawCode
       = matchProduct_v4 (refreshMasterStats md st') g14 g13 rawCode
   \<and> loadMasterData (Inr data) (loadMasterData (Inr data) s3) = loadMasterData (Inr data) s3'
   \<and> matchProduct_v3 (loadMasterData (Inr data) (loadMasterData (Inr data) s3)) g14
       = matchProduct_v3 (loadMasterData (Inr data) s3') g14"
proof -
  have a: "masterIndex (refreshMasterStats md (refreshMasterStats md st))
           = masterIndex (refreshMasterStats md st')"
    by (simp add: refreshMasterStats_def)
  have b: "loadMasterData (Inr data) (loadMasterData (Inr data) s3) = loadMasterData (Inr data) s3'"
    by (simp only: loadMasterData_fresh)
  from a b matchProduct_v4_index [OF a] show ?thesis by simp
qed

theorem C8_witness:
  "matchProduct_v4 (refreshMasterStats catalog_shared (refreshMasterStats catalog_shared State_v4))
       ''01234567890123'' ''1234567890123'' (Some ''1234567890123'')
     = matchProduct_v4 (refreshMasterStats catalog_shared State_v4)
       ''01234567890123'' ''1234567890123'' (Some ''1234567890123'')
   \<and> matchProduct_v3 (loadMasterData (Inr store_shared) (loadMasterData (Inr store_shared) State_v3))
       ''01234567890123''
     = matchProduct_v3 (loadMasterData (Inr store_shared) State_v3) ''01234567890123''"
  using C8 [of catalog_shared State_v4 State_v4 "''01234567890123''" "''1234567890123''"
      "Some ''1234567890123''" store_shared State_v3 State_v3]
  by simp

subsection \<open>The matcher\<close>

lemma checkReady_ready: "ready m \<Longrightarrow> checkReady m = Inr ()"
  by (simp add: checkReady_def)

lemma checkReady_not_ready: "\<not> ready m \<Longrightarrow> checkReady m = Inl NotInitialised"
  by (simp add: checkReady_def)

lemma series_loop_take:
  "series_loop q limit ps rs =
     rs @ take (max 1 (nat (limit - int (length rs)))) (filter (series_hit q) ps)"
proof (induction ps arbitrary: rs)
  case Nil
  show ?case by simp
next
  case (Cons p ps)
  show ?case
  proof (cases "series_hit q p")
    case False
    then show ?thesis
      by (simp add: Cons.IH series_hit_def Let_def)
  next
    case hit: True
    show ?thesis
    proof (cases "int (length (rs @ [p])) \<ge> limit")
      case True
      then have "max 1 (nat (limit - int (length rs))) = 1" by simp
      with hit True show ?thesis
        by (simp add: series_hit_def Let_def)
    next
      case False
      then have n: "max 1 (nat (limit - int (length rs))) = Suc (max 1 (nat (limit - int (length (rs @ [p])))))"
        by simp
      from hit False have "series_loop q limit (p # ps) rs = series_loop q limit ps (rs @ [p])"
        by (simp add: series_hit_def Let_def)
      also have "\<dots> = (rs @ [p]) @ take (max 1 (nat (limit - int (length (rs @ [p])))))
                          (filter (series_hit q) ps)"
        by (rule Cons.IH)
      also have "\<dots> = rs @ take (max 1 (nat (limit - int (length rs)))) (filter (series_hit q) (p # ps))"
        unfolding n using hit by simp
      finally show ?thesis .
    qed
  qed
qed

lemma matchSeries_take:
  "ready m \<Longrightarrow> matchSeries m code limit =
     Inr (take (max 1 (nat limit)) (filter (series_hit (trim (String_arg code))) (products m)))"
  by (simp add: matchSeries_def checkReady_ready series_loop_take)

lemma no_barcode_hit:
  assumes "barcode p = None \<or> barcode p = Some []"
  shows "series_hit q p"
  using assms by (auto simp: series_hit_def or_empty_def trim_def startsWith_def)

text \<open>
  Claim C10. On an initialised matcher, a product whose barcode is missing or empty is
  a hit of \<^verbatim>\<open>matchSeries\<close> for every query (a string or a number, read as
  \<^verbatim>\<open>String(code).trim()\<close>), since the empty string starts every string.
  The result is the first \<open>max 1 limit\<close> hits in catalog order, so it is never empty
  when the catalog has such a product, and it holds every such product when the hits
  are no more than the limit.
\<close>

theorem C10:
  "ready m \<and> p \<in> set (products m) \<and> (barcode p = None \<or> barcode p = Some [])
   \<longrightarrow> (\<exists>rs. matchSeries m code limit = Inr rs
          \<and> rs = take (max 1 (nat limit)) (filter (series_hit (trim (String_arg code))) (products m))
          \<and> p \<in> set (filter (series_hit (trim (String_arg code))) (products m))
          \<and> rs \<noteq> []
          \<and> (length (filter (series_hit (trim (String_arg code))) (products m)) \<le> max 1 (nat limit) \<longrightarrow> p \<in> set rs))"
proof (intro impI, elim conjE)
  let ?hits = "filter (series_hit (trim (String_arg code))) (products m)"
  assume r: "ready m" and p: "p \<in> set (products m)"
    and b: "barcode p = None \<or> barcode p = Some []"
  from b have "series_hit (trim (String_arg code)) p" by (rule no_barcode_hit)
  with p have h: "p \<in> set ?hits" by simp
  then have ne: "?hits \<noteq> []" by (metis empty_iff empty_set)
  then have t: "take (max 1 (nat limit)) ?hits \<noteq> []" by simp
  from r have "matchSeries m code limit = Inr (take (max 1 (nat limit)) ?hits)"
    by (rule matchSeries_take)
  with h t show "\<exists>rs. matchSeries m code limit = Inr rs
          \<and> rs = take (max 1 (nat limit)) ?hits
          \<and> p \<in> set ?hits
          \<and> rs \<noteq> []
          \<and> (length ?hits \<le> max 1 (nat limit) \<longrightarrow> p \<in> set rs)"
    by simp
qed


theorem C10_witness:
  "ready (init (Inr [panadol_baby, no_barcode_item]) constructor)
   \<and> no_barcode_item \<in> set (products (init (Inr [panadol_baby, no_barcode_item]) constructor))
   \<and> barcode no_barcode_item = None
   \<and> matchSeries (init (Inr [panadol_baby, no_barcode_item]) constructor) (Str ''777'') 10
       = Inr [no_barcode_item]"
proof -
  let ?m = "init (Inr [panadol_baby, no_barcode_item]) constructor"
  have r: "ready ?m" and p: "no_barcode_item \<in> set (products ?m)"
    and b: "barcode no_barcode_item = None"
    by (simp_all add: init_def no_barcode_item_def)
  have f: "filter (series_hit (trim (String_arg (Str ''777'')))) (products ?m) = [no_barcode_item]"
    by (simp add: String_arg_def init_def series_hit_def panadol_baby_def no_barcode_item_def or_empty_def
        trim_def isSpace_def startsWith_def)
  from C10 [of ?m no_barcode_item "Str ''777''" 10] r p b show ?thesis
    by (simp add: f)
qed

lemma matchExact_ready:
  "ready m \<Longrightarrow> matchExact m code = Inr (barcodeMap m (trim (String_arg code)))"
  by (simp add: matchExact_def checkReady_ready)

lemma matchByName_ready: "ready m \<Longrightarrow> \<exists>r. matchByName m (Str s) limit = Inr r"
  by (simp add: matchByName_def checkReady_ready Let_def)

lemma matchByName_number: "ready m \<Longrightarrow> matchByName m (Num n) limit = Inl TypeError"
  by (simp add: matchByName_def checkReady_ready)

lemma smartMatch_dispatch:
  assumes "ready m"
  shows "\<exists>found series byName.
           matchExact m (Str (trim (String_arg query))) = Inr found
           \<and> matchSeries m (Str (trim (String_arg query))) limit = Inr series
           \<and> matchByName m (Str (trim (String_arg query))) limit = Inr byName
           \<and> smartMatch m query limit
               = Inr (dispatch (barcode_shaped (trim (String_arg query))) found series byName)"
proof -
  let ?q = "trim (String_arg query)"
  obtain byName where n: "matchByName m (Str ?q) limit = Inr byName"
    using matchByName_ready [OF assms] by blast
  note e = matchExact_ready [OF assms, of "Str ?q"]
  note s = matchSeries_take [OF assms, of "Str ?q" limit]
  have d: "isDigit = (\<lambda>c. c \<in> set ''0123456789'')"
    by (rule ext) (simp only: isDigit_def)
  have shaped: "(?q \<noteq> [] \<and> list_all isDigit ?q) = barcode_shaped ?q"
    by (simp only: barcode_shaped_def list_all_iff d subset_eq)
  have "smartMatch m query limit
          = Inr (dispatch (barcode_shaped ?q) (barcodeMap m (trim (String_arg (Str ?q))))
                  (take (max 1 (nat limit))
                     (filter (series_hit (trim (String_arg (Str ?q)))) (products m)))
                  byName)"
    unfolding smartMatch_def Let_def shaped
    by (simp add: checkReady_ready [OF assms] e s n dispatch_def split: option.splits)
  with e s n show ?thesis by simp
qed

lemma smartMatch_not_ready: "\<not> ready m \<Longrightarrow> smartMatch m query limit = Inl NotInitialised"
  by (simp add: smartMatch_def checkReady_not_ready)

lemma panadol_upper:
  "toUpperCase (trim ''panadol'') = ''PANADOL''"
  "toUpperCase ''PANADOL BABY'' = ''PANADOL BABY''"
  "toUpperCase ''PANADOL EXTRA'' = ''PANADOL EXTRA''"
  "toUpperCase (trim ''baby panadol'') = ''BABY PANADOL''"
  "toUpperCase (trim ''xyz999'') = ''XYZ999''"
  "toUpperCase (trim ''12345'') = ''12345''"
  by (simp_all add: toUpperCase_def trim_def isSpace_def)

lemma panadol_words:
  "words_of ''PANADOL'' = [''PANADOL'']" "words_of ''BABY PANADOL'' = [''BABY'', ''PANADOL'']"
  "words_of ''XYZ999'' = [''XYZ999'']" "words_of ''12345'' = [''12345'']"
  by (simp_all add: words_of_def isSpace_def)

lemma panadol_scores:
  assumes "master_item.name p1 = Some ''PANADOL BABY''" and "master_item.name p2 = Some ''PANADOL EXTRA''"
  shows "name_score ''PANADOL'' [''PANADOL''] p1 = 2" and "name_score ''PANADOL'' [''PANADOL''] p2 = 2"
    and "name_score ''BABY PANADOL'' [''BABY'', ''PANADOL''] p1 = 1"
    and "name_score ''BABY PANADOL'' [''BABY'', ''PANADOL''] p2 = 0"
    and "name_score ''XYZ999'' [''XYZ999''] p1 = 0"
    and "name_score ''XYZ999'' [''XYZ999''] p2 = 0"
    and "name_score ''12345'' [''12345''] p1 = 0"
    and "name_score ''12345'' [''12345''] p2 = 0"
  using assms
  by (simp_all add: name_score_def or_empty_def panadol_upper startsWith_def)

lemma matchByName_panadol:
  assumes "ready m" and "products m = [p1, p2]"
    and "master_item.name p1 = Some ''PANADOL BABY''" and "master_item.name p2 = Some ''PANADOL EXTRA''"
  shows "2 \<le> limit \<Longrightarrow> matchByName m (Str ''panadol'') limit = Inr [(p1, 2), (p2, 2)]"
    and "1 \<le> limit \<Longrightarrow> matchByName m (Str ''baby panadol'') limit = Inr [(p1, 1)]"
    and "matchByName m (Str ''xyz999'') limit = Inr []"
    and "matchByName m (Str ''12345'') limit = Inr []"
  using assms(1,2)
  by (simp_all add: matchByName_def checkReady_ready Let_def panadol_upper panadol_words
      panadol_scores [OF assms(3,4)] slice0_def)

lemma panadol_matcher_facts:
  "ready panadol_matcher" "products panadol_matcher = [panadol_baby, panadol_extra]"
  "master_item.name panadol_baby = Some ''PANADOL BABY''"
  "master_item.name panadol_extra = Some ''PANADOL EXTRA''"
  by (simp_all add: panadol_matcher_def init_def panadol_baby_def panadol_extra_def)

text \<open>
  Claim C3. On an initialised matcher \<^verbatim>\<open>smartMatch\<close> is the dispatcher of the
  specification applied to the outcomes of the three searches on the trimmed input:
  exact then series when the input is one or more digits, name search when both fail or
  the input is not of that shape, and the tag \<^verbatim>\<open>no_match\<close> with no results when the name
  search finds nothing, as for \<^verbatim>\<open>xyz999\<close> over a catalog without such a name. The
  input is a string or a number; \<^verbatim>\<open>smartMatch\<close> reads it as \<^verbatim>\<open>String(query).trim()\<close>.
\<close>

theorem C3:
  "(ready m \<longrightarrow>
      (\<exists>found series byName.
           matchExact m (Str (trim (String_arg query))) = Inr found
           \<and> matchSeries m (Str (trim (String_arg query))) limit = Inr series
           \<and> matchByName m (Str (trim (String_arg query))) limit = Inr byName
           \<and> smartMatch m query limit
               = Inr (dispatch (barcode_shaped (trim (String_arg query))) found series byName)))
   \<and> (ready m \<and> matchByName m (Str ''xyz999'') limit = Inr []
      \<longrightarrow> smartMatch m (Str ''xyz999'') limit = Inr \<lparr>type = ''no_match'', results = []\<rparr>)"
proof (intro conjI impI)
  assume "ready m"
  then show "\<exists>found series byName.
           matchExact m (Str (trim (String_arg query))) = Inr found
           \<and> matchSeries m (Str (trim (String_arg query))) limit = Inr series
           \<and> matchByName m (Str (trim (String_arg query))) limit = Inr byName
           \<and> smartMatch m query limit
               = Inr (dispatch (barcode_shaped (trim (String_arg query))) found series byName)"
    by (rule smartMatch_dispatch)
next
  assume a: "ready m \<and> matchByName m (Str ''xyz999'') limit = Inr []"
  have t: "trim (String_arg (Str ''xyz999'')) = ''xyz999''"
    by (simp add: String_arg_def trim_def isSpace_def)
  have n: "\<not> barcode_shaped ''xyz999''"
    by (simp add: barcode_shaped_def)
  from a smartMatch_dispatch [of m "Str ''xyz999''" limit]
  show "smartMatch m (Str ''xyz999'') limit = Inr \<lparr>type = ''no_match'', results = []\<rparr>"
    by (auto simp: t n dispatch_def)
qed

theorem C3_witness:
  "ready panadol_matcher \<and> matchByName panadol_matcher (Str ''xyz999'') 10 = Inr []
   \<and> smartMatch panadol_matcher (Str ''xyz999'') 10 = Inr \<lparr>type = ''no_match'', results = []\<rparr>"
proof -
  have n: "matchByName panadol_matcher (Str ''xyz999'') 10 = Inr []"
    by (rule matchByName_panadol(3) [OF panadol_matcher_facts])
  from C3 [of panadol_matcher "Str ''xyz999''" 10] panadol_matcher_facts(1) n
  show ?thesis by simp
qed

text \<open>
  Claim C4, amended. Over a catalog of the two names \<^verbatim>\<open>PANADOL BABY\<close> and
  \<^verbatim>\<open>PANADOL EXTRA\<close> the query \<^verbatim>\<open>panadol\<close> returns both products in catalog order, each
  with score 2: the upper-cased query is a substring of either name. Score 1 is what
  the query \<^verbatim>\<open>baby panadol\<close> gives the first product: every word is in the name, the
  whole query is not.
\<close>

theorem C4:
  "ready m \<and> products m = [p1, p2] \<and> master_item.name p1 = Some ''PANADOL BABY''
     \<and> master_item.name p2 = Some ''PANADOL EXTRA''
   \<longrightarrow> (2 \<le> limit \<longrightarrow> matchByName m (Str ''panadol'') limit = Inr [(p1, 2), (p2, 2)])
       \<and> (1 \<le> limit \<longrightarrow> matchByName m (Str ''baby panadol'') limit = Inr [(p1, 1)])"
  using matchByName_panadol(1,2) [of m p1 p2 limit] by blast

theorem C4_counterexample:
  "matchByName panadol_matcher (Str ''panadol'') 10 = Inr [(panadol_baby, 2), (panadol_extra, 2)]
   \<and> matchByName panadol_matcher (Str ''panadol'') 10 \<noteq> Inr [(panadol_baby, 1), (panadol_extra, 1)]"
  by (simp add: matchByName_panadol(1) [OF panadol_matcher_facts])

theorem C4_witness:
  "ready panadol_matcher \<and> products panadol_matcher = [panadol_baby, panadol_extra]
   \<and> master_item.name panadol_baby = Some ''PANADOL BABY''
   \<and> master_item.name panadol_extra = Some ''PANADOL EXTRA'' \<and> (2::int) \<le> 10
   \<and> matchByName panadol_matcher (Str ''panadol'') 10 = Inr [(panadol_baby, 2), (panadol_extra, 2)]
   \<and> matchByName panadol_matcher (Str ''baby panadol'') 10 = Inr [(panadol_baby, 1)]"
  using C4 [of panadol_matcher panadol_baby panadol_extra 10] panadol_matcher_facts
  by simp

lemma not_ready_throws:
  assumes "\<not> ready m"
  shows "matchExact m code = Inl NotInitialised" and "matchSeries m code limit = Inl NotInitialised"
    and "matchByName m query limit = Inl NotInitialised"
    and "smartMatch m query limit = Inl NotInitialised"
  using assms
  by (simp_all add: matchExact_def matchSeries_def matchByName_def smartMatch_def
      checkReady_not_ready)

lemma ready_returns:
  assumes "ready m"
  shows "\<exists>r. matchExact m code = Inr r" and "\<exists>r. matchSeries m code limit = Inr r"
    and "\<exists>r. smartMatch m query limit = Inr r" and "\<exists>r. matchByName m (Str s) limit = Inr r"
    and "matchByName m (Num n) limit = Inl TypeError"
proof -
  show "\<exists>r. matchExact m code = Inr r" by (simp add: matchExact_ready [OF assms])
  show "\<exists>r. matchSeries m code limit = Inr r" by (simp add: matchSeries_take [OF assms])
  show "\<exists>r. smartMatch m query limit = Inr r"
    using smartMatch_dispatch [OF assms, of query limit] by blast
  show "\<exists>r. matchByName m (Str s) limit = Inr r" by (rule matchByName_ready [OF assms])
  show "matchByName m (Num n) limit = Inl TypeError" by (rule matchByName_number [OF assms])
qed

lemma init_ready:
  "\<not> ready constructor" "ready (init (Inr ps) m)" "init (Inl e) m = m"
  by (simp_all add: constructor_def init_def)

text \<open>
  Claim C9. Before the matcher is initialised each of the four operations throws the
  error of \<^verbatim>\<open>_checkReady\<close>, for every argument (lemma \<open>not_ready_throws\<close>; the
  constructed matcher is not ready and a failed \<^verbatim>\<open>init\<close> leaves it so, lemma
  \<open>init_ready\<close>). On an initialised matcher \<^verbatim>\<open>matchExact\<close>, \<^verbatim>\<open>matchSeries\<close> and
  \<^verbatim>\<open>smartMatch\<close> return a result for every argument, and \<^verbatim>\<open>matchByName\<close> for every
  string (lemma \<open>ready_returns\<close>); given the number 12345, \<^verbatim>\<open>matchByName\<close> throws a
  \<^verbatim>\<open>TypeError\<close> where the other three, which call \<^verbatim>\<open>String(...)\<close> first, return.
\<close>

theorem C9:
  "ready panadol_matcher
   \<and> matchByName panadol_matcher (Num 12345) 10 = Inl TypeError
   \<and> matchExact panadol_matcher (Num 12345) = Inr None
   \<and> matchSeries panadol_matcher (Num 12345) 10 = Inr []
   \<and> smartMatch panadol_matcher (Num 12345) 10 = Inr \<lparr>type = ''no_match'', results = []\<rparr>
   \<and> \<not> ready constructor
   \<and> matchByName constructor (Num 12345) 10 = Inl NotInitialised
   \<and> matchExact constructor (Num 12345) = Inl NotInitialised
   \<and> matchSeries constructor (Num 12345) 10 = Inl NotInitialised
   \<and> smartMatch constructor (Num 12345) 10 = Inl NotInitialised"
proof -
  note r = panadol_matcher_facts(1)
  have q: "trim (String_arg (Num 12345)) = ''12345''"
    by (simp add: String_arg_def String_int_def string_of_nat.simps trim_def isSpace_def)
  have q': "trim (String_arg (Str ''12345'')) = ''12345''"
    by (simp add: String_arg_def trim_def isSpace_def)
  have bm: "barcodeMap panadol_matcher ''12345'' = None"
    by (simp add: panadol_matcher_def init_def panadol_baby_def panadol_extra_def or_empty_def
        trim_def isSpace_def)
  have hits: "filter (series_hit ''12345'') (products panadol_matcher) = []"
    by (simp add: panadol_matcher_facts(2) series_hit_def panadol_baby_def panadol_extra_def
        or_empty_def trim_def isSpace_def startsWith_def)
  have e: "matchExact panadol_matcher (Num 12345) = Inr None"
    by (simp add: matchExact_ready [OF r] q bm)
  have s: "matchSeries panadol_matcher (Num 12345) 10 = Inr []"
    by (simp add: matchSeries_take [OF r] q hits)
  have n: "matchByName panadol_matcher (Str ''12345'') 10 = Inr []"
    by (rule matchByName_panadol(4) [OF panadol_matcher_facts])
  have sm: "smartMatch panadol_matcher (Num 12345) 10 = Inr \<lparr>type = ''no_match'', results = []\<rparr>"
    using smartMatch_dispatch [OF r, of "Num 12345" 10]
    by (auto simp: q q' n matchExact_ready [OF r] matchSeries_take [OF r] bm hits dispatch_def)
  have t: "matchByName panadol_matcher (Num 12345) 10 = Inl TypeError"
    by (rule matchByName_number [OF r])
  note c = init_ready(1)
  from r t e s sm c not_ready_throws [OF c] show ?thesis by simp
qed

end
